theory Spec2Isabelle
  imports Complex_Main "HOL-Library.Monad_Syntax" "HOL-Library.Stream" "HOL-Library.Multiset"
begin

section \<open>The NHANES confidence-interval notebook\<close>

text \<open>
  The source is one notebook, \<^verbatim>\<open>week2/nhanes_confidence_intervals.ipynb\<close>, a linear
  sequence of cells over the table \<^verbatim>\<open>da\<close> read from a CSV file. Each cell is embedded
  as a function of that table. Numbers are real numbers: the rounding of the
  notebook's 64-bit floats is modelled for the one-proportion interval only, which is
  given a second time in floating point. A value of type \<open>'a option\<close> is \<open>None\<close>
  where Python yields no real number: a missing field (\<^verbatim>\<open>nan\<close>), an arithmetic result
  that is \<^verbatim>\<open>nan\<close> or \<^verbatim>\<open>inf\<close>, or a raised exception.
\<close>

subsection \<open>The table\<close>

text \<open>
  The columns of \<^verbatim>\<open>da\<close> that the notebook reads. An empty CSV field is \<open>None\<close>.
\<close>

record row =
  SMQ020 :: "int option"
  RIAGENDR :: "int option"
  RIDAGEYR :: "real option"
  BMXBMI :: "real option"

type_synonym table = "row list"

subsection \<open>NumPy arithmetic that can leave the reals\<close>

text \<open>
  \<^verbatim>\<open>np.sqrt\<close> of a negative number is \<^verbatim>\<open>nan\<close>, and a float division by zero is
  \<^verbatim>\<open>inf\<close> or \<^verbatim>\<open>nan\<close>; HOL's \<open>sqrt\<close> and \<open>/\<close> are total, so the guards are written out.
\<close>

definition np_sqrt :: "real \<Rightarrow> real option" where
  "np_sqrt x = (if x < 0 then None else Some (sqrt x))"

definition np_divide :: "real \<Rightarrow> real \<Rightarrow> real option" where
  "np_divide a b = (if b = 0 then None else Some (a / b))"

text \<open>\<^verbatim>\<open>np.mean\<close> of a list of numbers; the mean of no numbers is \<^verbatim>\<open>nan\<close>.\<close>

definition np_mean :: "real list \<Rightarrow> real option" where
  "np_mean xs = np_divide (sum_list xs) (real (length xs))"

subsection \<open>Cell 5: recoding\<close>

text \<open>
  \<^verbatim>\<open>da["SMQ020x"] = da.SMQ020.replace({1: "Yes", 2: "No", 7: np.nan, 9: np.nan})\<close>
  \<^verbatim>\<open>da["RIAGENDRx"] = da.RIAGENDR.replace({1: "Male", 2: "Female"})\<close>
  \<^verbatim>\<open>replace\<close> leaves every value that is not a key of the dictionary as it is. A new
  column is computed row by row from an old one and never assigned again, so it is a
  function of the row.
\<close>

datatype smoke_label = Yes | No | SCode int

datatype gender_label = Male | Female | GCode int

definition replace_SMQ020 :: "int option \<Rightarrow> smoke_label option" where
  "replace_SMQ020 c =
     (case c of
        None \<Rightarrow> None
      | Some k \<Rightarrow>
          if k = 1 then Some Yes
          else if k = 2 then Some No
          else if k = 7 then None
          else if k = 9 then None
          else Some (SCode k))"

definition replace_RIAGENDR :: "int option \<Rightarrow> gender_label option" where
  "replace_RIAGENDR c =
     (case c of
        None \<Rightarrow> None
      | Some k \<Rightarrow>
          if k = 1 then Some Male
          else if k = 2 then Some Female
          else Some (GCode k))"

definition SMQ020x :: "row \<Rightarrow> smoke_label option" where
  "SMQ020x r = replace_SMQ020 (SMQ020 r)"

definition RIAGENDRx :: "row \<Rightarrow> gender_label option" where
  "RIAGENDRx r = replace_RIAGENDR (RIAGENDR r)"

subsection \<open>Cells 7 and 9: the smoking table by gender\<close>

text \<open>
  \<^verbatim>\<open>dx = da[["SMQ020x", "RIAGENDRx"]].dropna()\<close>: the two columns, without the rows
  in which either is missing.
\<close>

definition dropna :: "('a option \<times> 'b option) list \<Rightarrow> ('a option \<times> 'b option) list" where
  "dropna ps = filter (\<lambda>p. fst p \<noteq> None \<and> snd p \<noteq> None) ps"

definition dx :: "table \<Rightarrow> (smoke_label option \<times> gender_label option) list" where
  "dx da = dropna (map (\<lambda>r. (SMQ020x r, RIAGENDRx r)) da)"

text \<open>\<^verbatim>\<open>pd.crosstab(dx.SMQ020x, dx.RIAGENDRx)\<close>: the count of each pair of labels.\<close>

definition crosstab ::
  "(smoke_label option \<times> gender_label option) list \<Rightarrow> smoke_label \<Rightarrow> gender_label \<Rightarrow> nat" where
  "crosstab d s g = length (filter (\<lambda>p. p = (Some s, Some g)) d)"

text \<open>
  The two aggregates of cell 9, applied to the \<^verbatim>\<open>SMQ020x\<close> values \<open>x\<close> of one group:
  \<^verbatim>\<open>lambda x: np.mean(x=="Yes")\<close> is the number of entries equal to \<^verbatim>\<open>"Yes"\<close> over the
  number of all entries (a missing entry is not equal to \<^verbatim>\<open>"Yes"\<close>), and \<^verbatim>\<open>np.size\<close>
  is the number of all entries, missing ones included.
\<close>

definition mean_is_Yes :: "smoke_label option list \<Rightarrow> real option" where
  "mean_is_Yes x = np_mean (map (\<lambda>v. if v = Some Yes then 1 else 0) x)"

definition np_size :: "'a list \<Rightarrow> nat" where
  "np_size x = length x"

text \<open>
  \<^verbatim>\<open>dz = dx.groupby(dx.RIAGENDRx).agg({"SMQ020x": [lambda x: np.mean(x=="Yes"), np.size]})\<close>
  with the columns renamed \<^verbatim>\<open>Proportion\<close> and \<^verbatim>\<open>Total_n\<close>. A group exists for each
  label that occurs; \<^verbatim>\<open>dz.Proportion.Female\<close> raises when no row is labelled Female.
\<close>

record dz_row =
  Proportion :: real
  Total_n :: nat

definition group_by_gender ::
  "(smoke_label option \<times> gender_label option) list \<Rightarrow> gender_label \<Rightarrow> smoke_label option list" where
  "group_by_gender d g = map fst (filter (\<lambda>p. snd p = Some g) d)"

definition dz :: "table \<Rightarrow> gender_label \<Rightarrow> dz_row option" where
  "dz da g =
     (let x = group_by_gender (dx da) g in
      if x = [] then None
      else do {
        p \<leftarrow> mean_is_Yes x;
        Some \<lparr>Proportion = p, Total_n = np_size x\<rparr>
      })"

subsection \<open>Cells 11 to 15: standard error and interval of one proportion\<close>

text \<open>
  \<^verbatim>\<open>np.sqrt(p * (1 - p) / n)\<close>, the expression of cells 11, 13, 15 and 27.
\<close>

definition se_proportion :: "real \<Rightarrow> nat \<Rightarrow> real option" where
  "se_proportion p n = do {
     q \<leftarrow> np_divide (p * (1 - p)) (real n);
     np_sqrt q
   }"

text \<open>
  Cell 11, one cell:
  \<^verbatim>\<open>
    p = dz.Proportion.Female # Female proportion
    n = dz.Total_n.Female # Total number of females
    se_female = np.sqrt(p * (1 - p) / n)
    p = dz.Proportion.Male # Male proportion
    n = dz["Total_n"].Male # Total number of males
    se_male = np.sqrt(p * (1 - p) / n)
  \<close>
  The Female row is read first: when \<^verbatim>\<open>dz\<close> has no such row the cell raises there,
  and \<^verbatim>\<open>se_male\<close> is not assigned either.
\<close>

definition se_female :: "table \<Rightarrow> real option" where
  "se_female da = do {
     r \<leftarrow> dz da Female;
     se_proportion (Proportion r) (Total_n r)
   }"

definition se_male :: "table \<Rightarrow> real option" where
  "se_male da = do {
     f \<leftarrow> dz da Female;
     r \<leftarrow> dz da Male;
     se_proportion (Proportion r) (Total_n r)
   }"

text \<open>
  \<^verbatim>\<open>lcb = p - 1.96 * np.sqrt(p * (1 - p) / n)\<close>
  \<^verbatim>\<open>ucb = p + 1.96 * np.sqrt(p * (1 - p) / n)\<close>
\<close>

definition lcb_ucb_proportion :: "real \<Rightarrow> nat \<Rightarrow> (real \<times> real) option" where
  "lcb_ucb_proportion p n = do {
     s1 \<leftarrow> se_proportion p n;
     s2 \<leftarrow> se_proportion p n;
     Some (p - 1.96 * s1, p + 1.96 * s2)
   }"

definition ci_female :: "table \<Rightarrow> (real \<times> real) option" where
  "ci_female da = do {
     r \<leftarrow> dz da Female;
     lcb_ucb_proportion (Proportion r) (Total_n r)
   }"

definition ci_male :: "table \<Rightarrow> (real \<times> real) option" where
  "ci_male da = do {
     r \<leftarrow> dz da Male;
     lcb_ucb_proportion (Proportion r) (Total_n r)
   }"

subsection \<open>Cells 11 to 15 in 64-bit floating point\<close>

text \<open>
  The numbers of the notebook are IEEE 754 binary64 floats. A float is the real number
  it denotes, and each operation yields the float nearest to the exact result, a tie
  going to the float whose last bit is even: a float has 53 significant bits, so the
  floats near \<open>x\<close> are the multiples of \<open>2\<close> to the power \<open>e - 52\<close>, where \<open>e\<close> is the exponent
  of \<open>x\<close> (at least -1022, the exponent of the subnormal numbers). A result of magnitude
  \<open>2 ^ 1024\<close> or more is \<^verbatim>\<open>inf\<close>, which is \<open>None\<close> here, as are a division by zero and the
  square root of a negative number.
\<close>

definition round_half_even :: "real \<Rightarrow> int" where
  "round_half_even x =
     (let f = \<lfloor>x\<rfloor>; d = x - of_int f
      in if d < 1/2 then f else if 1/2 < d then f + 1 else if even f then f else f + 1)"

definition f64_exponent :: "real \<Rightarrow> int" where
  "f64_exponent x = max \<lfloor>log 2 \<bar>x\<bar>\<rfloor> (- 1022)"

definition f64 :: "real \<Rightarrow> real option" where
  "f64 x =
     (if x = 0 then Some 0
      else let u = 2 powr real_of_int (f64_exponent x - 52);
               r = real_of_int (round_half_even (x / u)) * u
           in if 2 ^ 1024 \<le> \<bar>r\<bar> then None else Some r)"

definition f64_add :: "real \<Rightarrow> real \<Rightarrow> real option" where
  "f64_add a b = f64 (a + b)"

definition f64_sub :: "real \<Rightarrow> real \<Rightarrow> real option" where
  "f64_sub a b = f64 (a - b)"

definition f64_mul :: "real \<Rightarrow> real \<Rightarrow> real option" where
  "f64_mul a b = f64 (a * b)"

definition f64_div :: "real \<Rightarrow> real \<Rightarrow> real option" where
  "f64_div a b = (if b = 0 then None else f64 (a / b))"

definition f64_sqrt :: "real \<Rightarrow> real option" where
  "f64_sqrt x = (if x < 0 then None else f64 (sqrt x))"

text \<open>
  \<^verbatim>\<open>np.sqrt(p * (1 - p) / n)\<close> in floats, for a float \<open>p\<close>: the difference, the product,
  the quotient by \<open>n\<close> as a float, and the square root are rounded one after the other.
\<close>

definition se_proportion_f64 :: "real \<Rightarrow> nat \<Rightarrow> real option" where
  "se_proportion_f64 p n = do {
     o1 \<leftarrow> f64_sub 1 p;
     a \<leftarrow> f64_mul p o1;
     nf \<leftarrow> f64 (real n);
     q \<leftarrow> f64_div a nf;
     f64_sqrt q
   }"

text \<open>
  \<^verbatim>\<open>lcb = p - 1.96 * np.sqrt(p * (1 - p) / n)\<close>
  \<^verbatim>\<open>ucb = p + 1.96 * np.sqrt(p * (1 - p) / n)\<close>
  in floats; the literal \<^verbatim>\<open>1.96\<close> is the float nearest to 1.96.
\<close>

definition lcb_ucb_proportion_f64 :: "real \<Rightarrow> nat \<Rightarrow> (real \<times> real) option" where
  "lcb_ucb_proportion_f64 p n = do {
     c \<leftarrow> f64 1.96;
     s1 \<leftarrow> se_proportion_f64 p n;
     t1 \<leftarrow> f64_mul c s1;
     lcb \<leftarrow> f64_sub p t1;
     s2 \<leftarrow> se_proportion_f64 p n;
     t2 \<leftarrow> f64_mul c s2;
     ucb \<leftarrow> f64_add p t2;
     Some (lcb, ucb)
   }"

subsection \<open>Cells 22 and 24: difference of two proportions\<close>

text \<open>\<^verbatim>\<open>np.sqrt(a**2 + b**2)\<close>, the expression of cells 22, 27, 41 and 46.\<close>

definition sqrt_sum_squares :: "real \<Rightarrow> real \<Rightarrow> real option" where
  "sqrt_sum_squares a b = np_sqrt (a\<^sup>2 + b\<^sup>2)"

text \<open>\<^verbatim>\<open>se_diff = np.sqrt(se_female**2 + se_male**2)\<close>\<close>

definition se_diff :: "table \<Rightarrow> real option" where
  "se_diff da = do {
     sf \<leftarrow> se_female da;
     sm \<leftarrow> se_male da;
     sqrt_sum_squares sf sm
   }"

text \<open>
  \<^verbatim>\<open>d = dz.Proportion.Female - dz.Proportion.Male\<close>
  \<^verbatim>\<open>lcb = d - 2*se_diff\<close>
  \<^verbatim>\<open>ucb = d + 2*se_diff\<close>
\<close>

definition lcb_ucb_2 :: "real \<Rightarrow> real \<Rightarrow> real \<times> real" where
  "lcb_ucb_2 d s = (d - 2 * s, d + 2 * s)"

definition d_proportion :: "table \<Rightarrow> real option" where
  "d_proportion da = do {
     f \<leftarrow> dz da Female;
     m \<leftarrow> dz da Male;
     Some (Proportion f - Proportion m)
   }"

definition ci_diff_proportion :: "table \<Rightarrow> (real \<times> real) option" where
  "ci_diff_proportion da = do {
     d \<leftarrow> d_proportion da;
     s \<leftarrow> se_diff da;
     Some (lcb_ucb_2 d s)
   }"

subsection \<open>Cell 27: smoking proportions within age bands\<close>

text \<open>
  \<^verbatim>\<open>pd.cut(x, bins)\<close> with its defaults (\<^verbatim>\<open>right=True\<close>, \<^verbatim>\<open>include_lowest=False\<close>):
  the interval number \<open>i\<close> is \<open>(bins[i], bins[i+1]]\<close>, open on the left and closed on
  the right; a value in no interval, and a missing value, get the missing category.
  The result is the number of the interval.
\<close>

fun cut :: "real \<Rightarrow> real list \<Rightarrow> nat option" where
  "cut x (lo # hi # bins) =
     (if lo < x \<and> x \<le> hi then Some 0 else map_option Suc (cut x (hi # bins)))"
| "cut x bins = None"

definition age_bins :: "real list" where
  "age_bins = [18, 30, 40, 50, 60, 70, 80]"

text \<open>\<^verbatim>\<open>da["agegrp"] = pd.cut(da.RIDAGEYR, [18, 30, 40, 50, 60, 70, 80])\<close>\<close>

definition agegrp :: "row \<Rightarrow> nat option" where
  "agegrp r = (case RIDAGEYR r of None \<Rightarrow> None | Some a \<Rightarrow> cut a age_bins)"

text \<open>
  \<^verbatim>\<open>da.groupby(["agegrp", "RIAGENDRx"])\<close>: the group of band \<open>b\<close> and label \<open>g\<close> holds
  the rows of \<^verbatim>\<open>da\<close> with these two keys; a row with a missing key is in no group.
  The rows are those of \<^verbatim>\<open>da\<close>, not of \<^verbatim>\<open>dx\<close>: no \<^verbatim>\<open>dropna\<close> precedes the grouping.
\<close>

definition band_rows :: "table \<Rightarrow> nat \<Rightarrow> gender_label \<Rightarrow> row list" where
  "band_rows da b g = filter (\<lambda>r. agegrp r = Some b \<and> RIAGENDRx r = Some g) da"

text \<open>
  After \<^verbatim>\<open>unstack()\<close> there is one column for each gender label of the table, and
  \<^verbatim>\<open>pr.columns = ["Female", "Male"]\<close> names the columns by position: it raises unless
  there are exactly two. With the labels Female and Male and no other, the first
  column is the one of Female. For any other set of labels the embedding gives \<open>None\<close>.
\<close>

definition gender_labels :: "table \<Rightarrow> gender_label list" where
  "gender_labels da = List.map_filter RIAGENDRx da"

definition columns_Female_Male :: "table \<Rightarrow> bool" where
  "columns_Female_Male da \<longleftrightarrow> set (gender_labels da) = {Female, Male}"

text \<open>
  \<^verbatim>\<open>pr = da.groupby(["agegrp", "RIAGENDRx"]).agg({"SMQ020x": lambda x: np.mean(x=="Yes")}).unstack()\<close>
  \<^verbatim>\<open>dn = da.groupby(["agegrp", "RIAGENDRx"]).agg({"SMQ020x": np.size}).unstack()\<close>
  For a group without rows both the proportion and the count are missing.
\<close>

definition pr :: "table \<Rightarrow> nat \<Rightarrow> gender_label \<Rightarrow> real option" where
  "pr da b g =
     (if columns_Female_Male da then mean_is_Yes (map SMQ020x (band_rows da b g)) else None)"

definition dn :: "table \<Rightarrow> nat \<Rightarrow> gender_label \<Rightarrow> nat option" where
  "dn da b g =
     (if columns_Female_Male da \<and> band_rows da b g \<noteq> []
      then Some (np_size (map SMQ020x (band_rows da b g))) else None)"

text \<open>\<^verbatim>\<open>se = np.sqrt(pr * (1 - pr) / dn)\<close>, element by element.\<close>

definition se :: "table \<Rightarrow> nat \<Rightarrow> gender_label \<Rightarrow> real option" where
  "se da b g = do {
     p \<leftarrow> pr da b g;
     n \<leftarrow> dn da b g;
     se_proportion p n
   }"

text \<open>\<^verbatim>\<open>se_diff = np.sqrt(se.Female**2 + se.Male**2)\<close> (the second \<^verbatim>\<open>se_diff\<close> of the notebook)\<close>

definition se_diff_age :: "table \<Rightarrow> nat \<Rightarrow> real option" where
  "se_diff_age da b = do {
     sf \<leftarrow> se da b Female;
     sm \<leftarrow> se da b Male;
     sqrt_sum_squares sf sm
   }"

text \<open>\<^verbatim>\<open>pq = pr.Female - pr.Male\<close>\<close>

definition pq :: "table \<Rightarrow> nat \<Rightarrow> real option" where
  "pq da b = do {
     f \<leftarrow> pr da b Female;
     m \<leftarrow> pr da b Male;
     Some (f - m)
   }"

text \<open>The two plotted limits, \<^verbatim>\<open>pq - 2*se_diff\<close> and \<^verbatim>\<open>pq + 2*se_diff\<close>.\<close>

definition ci_diff_proportion_age :: "table \<Rightarrow> nat \<Rightarrow> (real \<times> real) option" where
  "ci_diff_proportion_age da b = do {
     q \<leftarrow> pq da b;
     s \<leftarrow> se_diff_age da b;
     Some (lcb_ucb_2 q s)
   }"

subsection \<open>Cells 30 and 32: BMI by gender\<close>

text \<open>
  \<^verbatim>\<open>da.groupby("RIAGENDRx").agg({"BMXBMI": np.mean})\<close>
  \<^verbatim>\<open>da.groupby("RIAGENDRx").agg({"BMXBMI": [np.mean, np.std, np.size]})\<close>
  One row for each gender label that occurs: the mean and the standard deviation of
  the BMI values that are present (\<^verbatim>\<open>std\<close> divides by their number less one), and the
  number of rows of the group. The mean and deviation functions are those of cell 46,
  given below.
\<close>

definition BMXBMI_values :: "row list \<Rightarrow> real list" where
  "BMXBMI_values rs = List.map_filter BMXBMI rs"

definition pd_std :: "real list \<Rightarrow> real option" where
  "pd_std xs = do {
     m \<leftarrow> np_mean xs;
     v \<leftarrow> np_divide (sum_list (map (\<lambda>x. (x - m)\<^sup>2) xs)) (real (length xs) - 1);
     np_sqrt v
   }"

definition bmi_by_gender ::
  "table \<Rightarrow> gender_label \<Rightarrow> (real option \<times> real option \<times> nat) option" where
  "bmi_by_gender da g =
     (let rs = filter (\<lambda>r. RIAGENDRx r = Some g) da in
      if rs = [] then None
      else Some (np_mean (BMXBMI_values rs), pd_std (BMXBMI_values rs), np_size rs))"

subsection \<open>Cells 34 to 43: mean BMI from the printed summary\<close>

text \<open>
  \<^verbatim>\<open>sem_female = 7.753 / np.sqrt(2976)\<close>
  \<^verbatim>\<open>sem_male = 6.253 / np.sqrt(2759)\<close>
\<close>

definition sem_female :: "real option" where
  "sem_female = do { r \<leftarrow> np_sqrt 2976; np_divide 7.753 r }"

definition sem_male :: "real option" where
  "sem_male = do { r \<leftarrow> np_sqrt 2759; np_divide 6.253 r }"

text \<open>
  \<^verbatim>\<open>lcb_female = 29.94 - 1.96 * 7.753 / np.sqrt(2976)\<close>
  \<^verbatim>\<open>ucb_female = 29.94 + 1.96 * 7.753 / np.sqrt(2976)\<close>
\<close>

definition lcb_female :: "real option" where
  "lcb_female = do { r \<leftarrow> np_sqrt 2976; q \<leftarrow> np_divide (1.96 * 7.753) r; Some (29.94 - q) }"

definition ucb_female :: "real option" where
  "ucb_female = do { r \<leftarrow> np_sqrt 2976; q \<leftarrow> np_divide (1.96 * 7.753) r; Some (29.94 + q) }"

text \<open>\<^verbatim>\<open>sem_diff = np.sqrt(sem_female**2 + sem_male**2)\<close>\<close>

definition sem_diff :: "real option" where
  "sem_diff = do { sf \<leftarrow> sem_female; sm \<leftarrow> sem_male; sqrt_sum_squares sf sm }"

text \<open>
  \<^verbatim>\<open>bmi_diff = 29.94 - 28.78\<close>
  \<^verbatim>\<open>lcb = bmi_diff - 2*sem_diff\<close>
  \<^verbatim>\<open>ucb = bmi_diff + 2*sem_diff\<close>
\<close>

definition bmi_diff :: real where
  "bmi_diff = 29.94 - 28.78"

definition ci_bmi_diff :: "(real \<times> real) option" where
  "ci_bmi_diff = do { s \<leftarrow> sem_diff; Some (lcb_ucb_2 bmi_diff s) }"

subsection \<open>Cells 18, 19 and 39: intervals by statsmodels\<close>

text \<open>
  \<^verbatim>\<open>sm.stats.DescrStatsW(x).zconfint_mean()\<close> with unit weights and the default
  \<^verbatim>\<open>alpha=0.05\<close>, as statsmodels defines it: the mean, plus and minus the normal
  quantile \<open>z\<close> times \<^verbatim>\<open>std_mean\<close>, where \<^verbatim>\<open>std_mean = std / sqrt(n - 1)\<close> and \<^verbatim>\<open>std\<close> is
  the square root of the mean squared deviation. The quantile is a parameter.
\<close>

definition zconfint_mean :: "real \<Rightarrow> real list \<Rightarrow> (real \<times> real) option" where
  "zconfint_mean z xs = do {
     m \<leftarrow> np_mean xs;
     var \<leftarrow> np_divide (sum_list (map (\<lambda>x. (x - m)\<^sup>2) xs)) (real (length xs));
     std \<leftarrow> np_sqrt var;
     r \<leftarrow> np_sqrt (real (length xs) - 1);
     std_mean \<leftarrow> np_divide std r;
     Some (m - z * std_mean, m + z * std_mean)
   }"

text \<open>
  The quantile that statsmodels uses, \<^verbatim>\<open>scipy.stats.norm.ppf(0.975)\<close>, as the 64-bit
  float it returns.
\<close>

definition z_975 :: real where
  "z_975 = 1.959963984540054"

text \<open>
  \<^verbatim>\<open>sm.stats.proportion_confint(count, nobs)\<close> with the defaults \<^verbatim>\<open>alpha=0.05\<close> and
  \<^verbatim>\<open>method='normal'\<close>, as statsmodels defines it:
  \<^verbatim>\<open>
    q_ = count * 1. / nobs
    std_ = np.sqrt(q_ * (1 - q_) / nobs)
    dist = stats.norm.isf(alpha / 2.) * std_
    ci_low = q_ - dist
    ci_upp = q_ + dist
  \<close>
  The quantile is a parameter again, and \<open>cnt\<close> is \<^verbatim>\<open>count\<close>. Later releases clip both
  bounds to the unit interval, which the bounds of cells 18 and 19 are inside of.
\<close>

definition proportion_confint :: "real \<Rightarrow> nat \<Rightarrow> nat \<Rightarrow> (real \<times> real) option" where
  "proportion_confint z cnt nobs = do {
     q \<leftarrow> np_divide (real cnt * 1) (real nobs);
     v \<leftarrow> np_divide (q * (1 - q)) (real nobs);
     std \<leftarrow> np_sqrt v;
     Some (q - z * std, q + z * std)
   }"

text \<open>
  \<^verbatim>\<open>sm.stats.proportion_confint(906, 906+2066)\<close>
  \<^verbatim>\<open>sm.stats.proportion_confint(1413, 1413+1340)\<close>
\<close>

definition ci_cell_18 :: "real \<Rightarrow> (real \<times> real) option" where
  "ci_cell_18 z = proportion_confint z 906 (906 + 2066)"

definition ci_cell_19 :: "real \<Rightarrow> (real \<times> real) option" where
  "ci_cell_19 z = proportion_confint z 1413 (1413 + 1340)"

text \<open>
  \<^verbatim>\<open>female_bmi = da.loc[da.RIAGENDRx=="Female", "BMXBMI"].dropna()\<close>
  \<^verbatim>\<open>sm.stats.DescrStatsW(female_bmi).zconfint_mean()\<close>
\<close>

definition female_bmi :: "table \<Rightarrow> real list" where
  "female_bmi da = List.map_filter BMXBMI (filter (\<lambda>r. RIAGENDRx r = Some Female) da)"

definition ci_female_bmi :: "real \<Rightarrow> table \<Rightarrow> (real \<times> real) option" where
  "ci_female_bmi z da = zconfint_mean z (female_bmi da)"

subsection \<open>Cell 46: mean BMI within age bands\<close>

text \<open>
  \<^verbatim>\<open>pr = da.groupby(["agegrp", "RIAGENDRx"]).agg({"BMXBMI": [np.mean, np.std, np.size]}).unstack()\<close>
  In a pandas aggregation \<^verbatim>\<open>np.mean\<close> and \<^verbatim>\<open>np.std\<close> are the group's \<^verbatim>\<open>mean\<close> and
  \<^verbatim>\<open>std\<close>: they skip missing values, and \<^verbatim>\<open>std\<close> divides by the number of values
  less one. \<^verbatim>\<open>np.size\<close> counts every row of the group. For a group without rows all
  three are missing. The columns are read by label here, which raises when the table
  has no row with that label.
\<close>

definition has_column :: "table \<Rightarrow> gender_label \<Rightarrow> bool" where
  "has_column da g \<longleftrightarrow> g \<in> set (gender_labels da)"

definition bmi_mean :: "table \<Rightarrow> nat \<Rightarrow> gender_label \<Rightarrow> real option" where
  "bmi_mean da b g =
     (if has_column da g then np_mean (BMXBMI_values (band_rows da b g)) else None)"

definition bmi_std :: "table \<Rightarrow> nat \<Rightarrow> gender_label \<Rightarrow> real option" where
  "bmi_std da b g =
     (if has_column da g then pd_std (BMXBMI_values (band_rows da b g)) else None)"

definition bmi_size :: "table \<Rightarrow> nat \<Rightarrow> gender_label \<Rightarrow> nat option" where
  "bmi_size da b g =
     (if has_column da g \<and> band_rows da b g \<noteq> []
      then Some (np_size (band_rows da b g)) else None)"

text \<open>
  \<^verbatim>\<open>pr["BMXBMI", "sem", "Female"] = pr["BMXBMI", "std", "Female"] / np.sqrt(pr["BMXBMI", "size", "Female"])\<close>
  and the same for Male.
\<close>

definition bmi_sem :: "table \<Rightarrow> nat \<Rightarrow> gender_label \<Rightarrow> real option" where
  "bmi_sem da b g = do {
     s \<leftarrow> bmi_std da b g;
     n \<leftarrow> bmi_size da b g;
     r \<leftarrow> np_sqrt (real n);
     np_divide s r
   }"

text \<open>
  \<^verbatim>\<open>pr["BMXBMI", "mean_diff", ""] = pr["BMXBMI", "mean", "Female"] - pr["BMXBMI", "mean", "Male"]\<close>
  \<^verbatim>\<open>pr["BMXBMI", "sem_diff", ""] = np.sqrt(pr["BMXBMI", "sem", "Female"]**2 + pr["BMXBMI", "sem", "Male"]**2)\<close>
  \<^verbatim>\<open>pr["BMXBMI", "lcb_diff", ""] = pr["BMXBMI", "mean_diff", ""] - 1.96 * pr["BMXBMI", "sem_diff", ""]\<close>
  \<^verbatim>\<open>pr["BMXBMI", "ucb_diff", ""] = pr["BMXBMI", "mean_diff", ""] + 1.96 * pr["BMXBMI", "sem_diff", ""]\<close>
\<close>

definition mean_diff :: "table \<Rightarrow> nat \<Rightarrow> real option" where
  "mean_diff da b = do {
     f \<leftarrow> bmi_mean da b Female;
     m \<leftarrow> bmi_mean da b Male;
     Some (f - m)
   }"

definition sem_diff_age :: "table \<Rightarrow> nat \<Rightarrow> real option" where
  "sem_diff_age da b = do {
     sf \<leftarrow> bmi_sem da b Female;
     sm \<leftarrow> bmi_sem da b Male;
     sqrt_sum_squares sf sm
   }"

definition lcb_ucb_diff :: "table \<Rightarrow> nat \<Rightarrow> (real \<times> real) option" where
  "lcb_ucb_diff da b = do {
     d \<leftarrow> mean_diff da b;
     s \<leftarrow> sem_diff_age da b;
     Some (d - 1.96 * s, d + 1.96 * s)
   }"

subsection \<open>Cell 50: the subsampling simulation\<close>

text \<open>
  \<^verbatim>\<open>dx = da.loc[da.RIAGENDRx=="Female", ["RIAGENDRx", "BMXBMI"]].dropna()\<close>
  (the second \<^verbatim>\<open>dx\<close> of the notebook): the rows labelled Female whose BMI is present.
\<close>

definition dx_bmi :: "table \<Rightarrow> (gender_label option \<times> real option) list" where
  "dx_bmi da =
     dropna (map (\<lambda>r. (RIAGENDRx r, BMXBMI r)) (filter (\<lambda>r. RIAGENDRx r = Some Female) da))"

text \<open>The column \<^verbatim>\<open>BMXBMI\<close> of such a frame, as numbers.\<close>

definition BMXBMI_column :: "(gender_label option \<times> real option) list \<Rightarrow> real list" where
  "BMXBMI_column d = List.map_filter snd d"

text \<open>
  \<^verbatim>\<open>dx.sample(n)\<close> draws \<open>n\<close> rows without replacement, with NumPy's global random
  generator, which the notebook never seeds. The generator is the stream of the
  numbers it is going to yield, and is passed on as state: a sample of \<open>n\<close> rows uses
  up \<open>n\<close> numbers, and each number selects one of the rows not drawn yet. Asking for
  more rows than there are raises \<^verbatim>\<open>ValueError\<close>.
\<close>

fun draw_rows :: "nat list \<Rightarrow> 'a list \<Rightarrow> 'a list" where
  "draw_rows [] xs = []"
| "draw_rows (k # ks) xs =
     (if xs = [] then []
      else let i = k mod length xs
           in xs ! i # draw_rows ks (take i xs @ drop (Suc i) xs))"

definition sample :: "nat \<Rightarrow> 'a list \<Rightarrow> nat stream \<Rightarrow> ('a list \<times> nat stream) option" where
  "sample n xs rng =
     (if length xs < n then None else Some (draw_rows (stake n rng) xs, sdrop n rng))"

text \<open>
  The inner loop, with the number of iterations still to run (the list \<^verbatim>\<open>cis\<close> is
  \<open>cs\<close> here):
  \<^verbatim>\<open>
    for i in range(500):
        dz = dx.sample(n)
        ci = sm.stats.DescrStatsW(dz.BMXBMI).zconfint_mean()
        cis.append(ci)
  \<close>
\<close>

fun inner_loop ::
  "real \<Rightarrow> nat \<Rightarrow> nat \<Rightarrow> (gender_label option \<times> real option) list \<Rightarrow>
   (real \<times> real) list \<Rightarrow> nat stream \<Rightarrow> ((real \<times> real) list \<times> nat stream) option" where
  "inner_loop z 0 n d cs rng = Some (cs, rng)"
| "inner_loop z (Suc i) n d cs rng = do {
     (dz', rng') \<leftarrow> sample n d rng;
     ci \<leftarrow> zconfint_mean z (BMXBMI_column dz');
     inner_loop z i n d (cs @ [ci]) rng'
   }"

text \<open>
  The outer loop over the sample sizes still to run; the state is what has been
  printed, \<^verbatim>\<open>all_cis\<close>, and the generator:
  \<^verbatim>\<open>
    for n in 100, 200, 400, 800:
        cis = []
        ...
        cis = np.asarray(cis)
        mean_width = cis[:, 1].mean() - cis[:, 0].mean()
        print(n, mean_width)
        all_cis.append(cis)
  \<close>
  When a sample raises, the lines printed and the arrays appended for the earlier
  sizes stay: the result is the state reached, and the generator only if the loop ran
  to its end.
\<close>

record sim =
  printed :: "(nat \<times> real) list"
  all_cis :: "(real \<times> real) list list"

fun outer_loop ::
  "real \<Rightarrow> nat \<Rightarrow> nat list \<Rightarrow> (gender_label option \<times> real option) list \<Rightarrow>
   sim \<Rightarrow> nat stream \<Rightarrow> sim \<times> nat stream option" where
  "outer_loop z reps [] d st rng = (st, Some rng)"
| "outer_loop z reps (n # ns) d st rng =
     (case inner_loop z reps n d [] rng of
        None \<Rightarrow> (st, None)
      | Some (cs, rng') \<Rightarrow>
          (case np_mean (map snd cs) of
             None \<Rightarrow> (st, None)
           | Some u \<Rightarrow>
               (case np_mean (map fst cs) of
                  None \<Rightarrow> (st, None)
                | Some l \<Rightarrow>
                    outer_loop z reps ns d
                      \<lparr>printed = printed st @ [(n, u - l)], all_cis = all_cis st @ [cs]\<rparr> rng')))"

definition sample_sizes :: "nat list" where
  "sample_sizes = [100, 200, 400, 800]"

definition simulation :: "real \<Rightarrow> table \<Rightarrow> nat stream \<Rightarrow> sim \<times> nat stream option" where
  "simulation z da rng =
     outer_loop z 500 sample_sizes (dx_bmi da) \<lparr>printed = [], all_cis = []\<rparr> rng"

subsection \<open>Cells 52 and 54: coverage of the first 500 intervals\<close>

text \<open>
  \<^verbatim>\<open>
    ci = all_cis[0]
    mn = dx.BMXBMI.mean()
    print(np.mean(ci[:, 1] < mn)) # Upper limit falls below the target
    print(np.mean(ci[:, 0] > mn)) # Lower limit falls above the target
  \<close>
  Here \<^verbatim>\<open>dx\<close> is the frame of cell 50. A comparison with a mean that is \<^verbatim>\<open>nan\<close> is false.
\<close>

definition mn :: "table \<Rightarrow> real option" where
  "mn da = np_mean (BMXBMI_column (dx_bmi da))"

definition non_coverage :: "(real \<times> real) list \<Rightarrow> real option \<Rightarrow> real option \<times> real option" where
  "non_coverage ci m =
     (np_mean (map (\<lambda>c. if (case m of None \<Rightarrow> False | Some t \<Rightarrow> snd c < t) then 1 else 0) ci),
      np_mean (map (\<lambda>c. if (case m of None \<Rightarrow> False | Some t \<Rightarrow> t < fst c) then 1 else 0) ci))"

subsection \<open>The notebook as a whole\<close>

text \<open>
  One execution runs the code cells in their order. The state of the kernel holds
  what the cells have displayed or assigned so far, the state of NumPy's global
  generator, and whether a cell has raised: the run stops at the first cell that
  raises, and what was assigned before stays. A field is \<open>None\<close> while it is not
  assigned (or when its value is \<^verbatim>\<open>nan\<close>). A cell reads a variable only after the cell
  that assigned it from the table has run, so a cell is written with the functions of
  the table given above. The plots are left out.
\<close>

record kernel =
  raised :: bool
  np_random :: "nat stream"
  out_7 :: "(smoke_label \<Rightarrow> gender_label \<Rightarrow> nat) option"
  v_dz :: "(gender_label \<Rightarrow> dz_row option) option"
  v_se_female :: "real option"
  v_se_male :: "real option"
  out_13 :: "(real \<times> real) option"
  out_15 :: "(real \<times> real) option"
  out_18 :: "(real \<times> real) option"
  out_19 :: "(real \<times> real) option"
  v_se_diff :: "real option"
  out_24 :: "(real \<times> real) option"
  out_27 :: "(real option \<times> (real \<times> real) option) list option"
  out_30 :: "(gender_label \<Rightarrow> real option option) option"
  out_32 :: "(gender_label \<Rightarrow> (real option \<times> real option \<times> nat) option) option"
  v_sem_female :: "real option"
  v_sem_male :: "real option"
  out_37 :: "real option \<times> real option"
  out_39 :: "(real \<times> real) option"
  v_sem_diff :: "real option"
  out_43 :: "(real \<times> real) option"
  out_46 :: "(real option \<times> (real \<times> real) option) list option"
  out_50 :: sim
  v_ci :: "(real \<times> real) list option"
  v_mn :: "real option"
  out_54 :: "(real option \<times> real option) option"

definition start :: "nat stream \<Rightarrow> kernel" where
  "start rng =
     \<lparr>raised = False, np_random = rng, out_7 = None, v_dz = None, v_se_female = None,
      v_se_male = None, out_13 = None, out_15 = None, out_18 = None, out_19 = None,
      v_se_diff = None, out_24 = None, out_27 = None, out_30 = None, out_32 = None,
      v_sem_female = None, v_sem_male = None, out_37 = (None, None), out_39 = None,
      v_sem_diff = None, out_43 = None, out_46 = None,
      out_50 = \<lparr>printed = [], all_cis = []\<rparr>, v_ci = None, v_mn = None, out_54 = None\<rparr>"

definition cell_7 :: "table \<Rightarrow> kernel \<Rightarrow> kernel" where
  "cell_7 da k = k\<lparr>out_7 := Some (crosstab (dx da))\<rparr>"

definition cell_9 :: "table \<Rightarrow> kernel \<Rightarrow> kernel" where
  "cell_9 da k = k\<lparr>v_dz := Some (dz da)\<rparr>"

text \<open>Cell 11 raises at the Female row, or after \<^verbatim>\<open>se_female\<close> at the Male row.\<close>

definition cell_11 :: "table \<Rightarrow> kernel \<Rightarrow> kernel" where
  "cell_11 da k =
     (case se_female da of
        None \<Rightarrow> k\<lparr>raised := True\<rparr>
      | Some sf \<Rightarrow>
          (case se_male da of
             None \<Rightarrow> k\<lparr>v_se_female := Some sf, raised := True\<rparr>
           | Some sm \<Rightarrow> k\<lparr>v_se_female := Some sf, v_se_male := Some sm\<rparr>))"

definition cell_13 :: "table \<Rightarrow> kernel \<Rightarrow> kernel" where
  "cell_13 da k =
     (case ci_female da of None \<Rightarrow> k\<lparr>raised := True\<rparr> | Some c \<Rightarrow> k\<lparr>out_13 := Some c\<rparr>)"

definition cell_15 :: "table \<Rightarrow> kernel \<Rightarrow> kernel" where
  "cell_15 da k =
     (case ci_male da of None \<Rightarrow> k\<lparr>raised := True\<rparr> | Some c \<Rightarrow> k\<lparr>out_15 := Some c\<rparr>)"

definition cell_18 :: "real \<Rightarrow> kernel \<Rightarrow> kernel" where
  "cell_18 z k = k\<lparr>out_18 := ci_cell_18 z\<rparr>"

definition cell_19 :: "real \<Rightarrow> kernel \<Rightarrow> kernel" where
  "cell_19 z k = k\<lparr>out_19 := ci_cell_19 z\<rparr>"

definition cell_22 :: "table \<Rightarrow> kernel \<Rightarrow> kernel" where
  "cell_22 da k =
     (case se_diff da of None \<Rightarrow> k\<lparr>raised := True\<rparr> | Some s \<Rightarrow> k\<lparr>v_se_diff := Some s\<rparr>)"

definition cell_24 :: "table \<Rightarrow> kernel \<Rightarrow> kernel" where
  "cell_24 da k =
     (case ci_diff_proportion da of
        None \<Rightarrow> k\<lparr>raised := True\<rparr>
      | Some c \<Rightarrow> k\<lparr>out_24 := Some c\<rparr>)"

text \<open>
  Cell 27 raises at the renaming of the columns, or plots one value with its two
  limits for each of the six bands.
\<close>

definition cell_27 :: "table \<Rightarrow> kernel \<Rightarrow> kernel" where
  "cell_27 da k =
     (if columns_Female_Male da
      then k\<lparr>out_27 := Some (map (\<lambda>b. (pq da b, ci_diff_proportion_age da b)) [0..<6])\<rparr>
      else k\<lparr>raised := True\<rparr>)"

definition cell_30 :: "table \<Rightarrow> kernel \<Rightarrow> kernel" where
  "cell_30 da k = k\<lparr>out_30 := Some (\<lambda>g. map_option fst (bmi_by_gender da g))\<rparr>"

definition cell_32 :: "table \<Rightarrow> kernel \<Rightarrow> kernel" where
  "cell_32 da k = k\<lparr>out_32 := Some (bmi_by_gender da)\<rparr>"

definition cell_34 :: "kernel \<Rightarrow> kernel" where
  "cell_34 k = k\<lparr>v_sem_female := sem_female, v_sem_male := sem_male\<rparr>"

definition cell_37 :: "kernel \<Rightarrow> kernel" where
  "cell_37 k = k\<lparr>out_37 := (lcb_female, ucb_female)\<rparr>"

definition cell_39 :: "real \<Rightarrow> table \<Rightarrow> kernel \<Rightarrow> kernel" where
  "cell_39 z da k = k\<lparr>out_39 := ci_female_bmi z da\<rparr>"

definition cell_41 :: "kernel \<Rightarrow> kernel" where
  "cell_41 k = k\<lparr>v_sem_diff := sem_diff\<rparr>"

definition cell_43 :: "kernel \<Rightarrow> kernel" where
  "cell_43 k = k\<lparr>out_43 := ci_bmi_diff\<rparr>"

text \<open>Cell 46 raises when the grouped table has no Female or no Male column.\<close>

definition cell_46 :: "table \<Rightarrow> kernel \<Rightarrow> kernel" where
  "cell_46 da k =
     (if has_column da Female \<and> has_column da Male
      then k\<lparr>out_46 := Some (map (\<lambda>b. (mean_diff da b, lcb_ucb_diff da b)) [0..<6])\<rparr>
      else k\<lparr>raised := True\<rparr>)"

text \<open>Cell 50 is the only cell that uses the generator.\<close>

definition cell_50 :: "real \<Rightarrow> table \<Rightarrow> kernel \<Rightarrow> kernel" where
  "cell_50 z da k =
     (case simulation z da (np_random k) of
        (st, None) \<Rightarrow> k\<lparr>out_50 := st, raised := True\<rparr>
      | (st, Some rng') \<Rightarrow> k\<lparr>out_50 := st, np_random := rng'\<rparr>)"

text \<open>Cell 52 raises at \<^verbatim>\<open>all_cis[0]\<close> when \<^verbatim>\<open>all_cis\<close> is empty.\<close>

definition cell_52 :: "table \<Rightarrow> kernel \<Rightarrow> kernel" where
  "cell_52 da k =
     (case all_cis (out_50 k) of
        [] \<Rightarrow> k\<lparr>raised := True\<rparr>
      | ci # _ \<Rightarrow> k\<lparr>v_ci := Some ci, v_mn := mn da\<rparr>)"

definition cell_54 :: "kernel \<Rightarrow> kernel" where
  "cell_54 k =
     (case v_ci k of
        None \<Rightarrow> k\<lparr>raised := True\<rparr>
      | Some ci \<Rightarrow> k\<lparr>out_54 := Some (non_coverage ci (v_mn k))\<rparr>)"

text \<open>A cell runs unless an earlier one has raised.\<close>

definition run_cell :: "kernel \<Rightarrow> (kernel \<Rightarrow> kernel) \<Rightarrow> kernel" where
  "run_cell k c = (if raised k then k else c k)"

definition cells_before_50 :: "real \<Rightarrow> table \<Rightarrow> (kernel \<Rightarrow> kernel) list" where
  "cells_before_50 z da =
     [cell_7 da, cell_9 da, cell_11 da, cell_13 da, cell_15 da, cell_18 z, cell_19 z,
      cell_22 da, cell_24 da, cell_27 da, cell_30 da, cell_32 da, cell_34, cell_37,
      cell_39 z da, cell_41, cell_43, cell_46 da]"

definition cells :: "real \<Rightarrow> table \<Rightarrow> (kernel \<Rightarrow> kernel) list" where
  "cells z da = cells_before_50 z da @ [cell_50 z da, cell_52 da, cell_54]"

definition notebook :: "real \<Rightarrow> table \<Rightarrow> nat stream \<Rightarrow> kernel" where
  "notebook z da rng = foldl run_cell (start rng) (cells z da)"

text \<open>
  What two executions are compared on: the kernel without the state of the
  generator, and the kernel without anything that the simulation has written.
\<close>

definition without_generator :: "kernel \<Rightarrow> kernel" where
  "without_generator k = k\<lparr>np_random := sconst 0\<rparr>"

definition without_simulation :: "kernel \<Rightarrow> kernel" where
  "without_simulation k =
     k\<lparr>np_random := sconst 0, out_50 := \<lparr>printed = [], all_cis = []\<rparr>, v_ci := None,
       out_54 := None\<rparr>"

subsection \<open>The samples of one execution\<close>

text \<open>
  With a generator in state \<open>rng\<close> at the start of a run of the inner loop for the
  sample size \<open>n\<close>, the sample of iteration \<open>k\<close> is drawn with the numbers from
  position \<open>k * n\<close> on, and the interval of iteration \<open>k\<close> is the one of that sample.
\<close>

definition nth_sample :: "nat \<Rightarrow> 'a list \<Rightarrow> nat stream \<Rightarrow> nat \<Rightarrow> 'a list" where
  "nth_sample n d rng k = draw_rows (stake n (sdrop (k * n) rng)) d"

definition nth_ci ::
  "real \<Rightarrow> nat \<Rightarrow> (gender_label option \<times> real option) list \<Rightarrow> nat stream \<Rightarrow> nat \<Rightarrow>
   (real \<times> real) option" where
  "nth_ci z n d rng k = zconfint_mean z (BMXBMI_column (nth_sample n d rng k))"

subsection \<open>Example tables\<close>

text \<open>
  Four subjects of age 25: two women and two men, one smoker among each.
\<close>

definition da_small :: table where
  "da_small =
     [\<lparr>SMQ020 = Some 1, RIAGENDR = Some 2, RIDAGEYR = Some 25, BMXBMI = Some 20\<rparr>,
      \<lparr>SMQ020 = Some 2, RIAGENDR = Some 2, RIDAGEYR = Some 25, BMXBMI = Some 30\<rparr>,
      \<lparr>SMQ020 = Some 1, RIAGENDR = Some 1, RIDAGEYR = Some 25, BMXBMI = Some 22\<rparr>,
      \<lparr>SMQ020 = Some 2, RIAGENDR = Some 1, RIDAGEYR = Some 25, BMXBMI = Some 26\<rparr>]"

text \<open>
  Two men of age 25, one of them a smoker, and no woman; one woman and no man.
\<close>

definition da_men :: table where
  "da_men =
     [\<lparr>SMQ020 = Some 1, RIAGENDR = Some 1, RIDAGEYR = Some 25, BMXBMI = Some 22\<rparr>,
      \<lparr>SMQ020 = Some 2, RIAGENDR = Some 1, RIDAGEYR = Some 25, BMXBMI = Some 26\<rparr>]"

definition da_women :: table where
  "da_women =
     [\<lparr>SMQ020 = Some 1, RIAGENDR = Some 2, RIDAGEYR = Some 25, BMXBMI = Some 20\<rparr>]"

text \<open>
  Three women who differ in age only: 25 years, 18 years (the lowest breakpoint), and
  no recorded age.
\<close>

definition subject_25 :: row where
  "subject_25 = \<lparr>SMQ020 = Some 1, RIAGENDR = Some 2, RIDAGEYR = Some 25, BMXBMI = Some 20\<rparr>"




text \<open>
  Two women and a man of age 25; the second woman answered the smoking question with
  code 7.
\<close>

definition da_missing :: table where
  "da_missing =
     [\<lparr>SMQ020 = Some 1, RIAGENDR = Some 2, RIDAGEYR = Some 25, BMXBMI = Some 20\<rparr>,
      \<lparr>SMQ020 = Some 7, RIAGENDR = Some 2, RIDAGEYR = Some 25, BMXBMI = Some 30\<rparr>,
      \<lparr>SMQ020 = Some 1, RIAGENDR = Some 1, RIDAGEYR = Some 25, BMXBMI = Some 22\<rparr>]"

text \<open>
  Eight hundred women of BMI 20 followed by one woman of BMI 30 and one man: enough
  rows for the largest sample of the simulation.
\<close>

definition subject_heavy :: row where
  "subject_heavy = \<lparr>SMQ020 = Some 2, RIAGENDR = Some 2, RIDAGEYR = Some 25, BMXBMI = Some 30\<rparr>"

definition subject_man :: row where
  "subject_man = \<lparr>SMQ020 = Some 1, RIAGENDR = Some 1, RIDAGEYR = Some 25, BMXBMI = Some 22\<rparr>"

definition da_sim :: table where
  "da_sim = replicate 800 subject_25 @ [subject_heavy, subject_man]"

section \<open>Properties\<close>

subsection \<open>Arithmetic helpers\<close>

lemma np_sqrt_Some: "0 \<le> x \<Longrightarrow> np_sqrt x = Some (sqrt x)"
  by (simp add: np_sqrt_def)


lemma np_divide_Some: "b \<noteq> 0 \<Longrightarrow> np_divide a b = Some (a / b)"
  by (simp add: np_divide_def)

lemma radicand_nonneg: "0 \<le> p \<Longrightarrow> p \<le> 1 \<Longrightarrow> 0 \<le> p * (1 - p) / real n"
  by simp

lemma se_proportion_eq:
  "0 \<le> p \<Longrightarrow> p \<le> 1 \<Longrightarrow> 0 < n \<Longrightarrow> se_proportion p n = Some (sqrt (p * (1 - p) / real n))"
  by (simp add: se_proportion_def np_divide_Some np_sqrt_Some)


lemma sum_list_indicator_bounds:
  "0 \<le> sum_list (map (\<lambda>v. if P v then 1 else (0::real)) x) \<and>
   sum_list (map (\<lambda>v. if P v then 1 else (0::real)) x) \<le> real (length x)"
  by (induction x) auto

lemma mean_is_Yes_bounds:
  assumes "mean_is_Yes x = Some p"
  shows "0 \<le> p \<and> p \<le> 1 \<and> x \<noteq> []"
proof -
  let ?s = "sum_list (map (\<lambda>v. if v = Some Yes then 1 else (0::real)) x)"
  from assms have ne: "x \<noteq> []" and p: "p = ?s / real (length x)"
    by (auto simp: mean_is_Yes_def np_mean_def np_divide_def split: if_splits)
  have "0 \<le> ?s \<and> ?s \<le> real (length x)"
    by (rule sum_list_indicator_bounds)
  with ne p show ?thesis by (simp add: divide_le_eq)
qed

lemma dz_bounds:
  "dz da g = Some r \<Longrightarrow> 0 \<le> Proportion r \<and> Proportion r \<le> 1 \<and> 0 < Total_n r"
  by (auto simp: dz_def Let_def np_size_def split: if_splits bind_splits dest: mean_is_Yes_bounds)

lemma pr_dn_bounds:
  "pr da b g = Some p \<Longrightarrow> dn da b g = Some n \<Longrightarrow> 0 \<le> p \<and> p \<le> 1 \<and> 0 < n"
  by (auto simp: pr_def dn_def np_size_def split: if_splits dest: mean_is_Yes_bounds)

subsection \<open>Standard error of a proportion\<close>

text \<open>
  C2: for a proportion \<open>p\<close> between 0 and 1 and a sample size \<open>n > 0\<close>, the standard
  error the notebook computes is \<open>sqrt (p * (1 - p) / n)\<close>; this is the value of
  \<^verbatim>\<open>se_female\<close> and \<^verbatim>\<open>se_male\<close> for the overall proportions of \<^verbatim>\<open>dz\<close>, and of \<^verbatim>\<open>se\<close>
  for the proportion of each age band. Cell 11 assigns \<^verbatim>\<open>se_female\<close> when \<^verbatim>\<open>dz\<close> has a
  Female row and \<^verbatim>\<open>se_male\<close> when it has both rows, and neither without a Female row.
\<close>

theorem standard_error_of_proportion:
  "(0 \<le> p \<and> p \<le> 1 \<and> 0 < n \<longrightarrow> se_proportion p n = Some (sqrt (p * (1 - p) / real n)))
   \<and> (dz da Female = Some f \<longrightarrow>
        se_female da = Some (sqrt (Proportion f * (1 - Proportion f) / real (Total_n f))))
   \<and> (dz da Female = Some f \<and> dz da Male = Some m \<longrightarrow>
        se_male da = Some (sqrt (Proportion m * (1 - Proportion m) / real (Total_n m))))
   \<and> (dz da' Female = None \<longrightarrow> se_female da' = None \<and> se_male da' = None)
   \<and> (dz da'' Male = None \<longrightarrow> se_male da'' = None)
   \<and> (pr da b g = Some q \<and> dn da b g = Some k \<longrightarrow>
        se da b g = Some (sqrt (q * (1 - q) / real k)))"
proof (intro conjI impI)
  assume "0 \<le> p \<and> p \<le> 1 \<and> 0 < n"
  then show "se_proportion p n = Some (sqrt (p * (1 - p) / real n))"
    by (simp add: se_proportion_eq)
next
  assume "dz da Female = Some f"
  then show "se_female da = Some (sqrt (Proportion f * (1 - Proportion f) / real (Total_n f)))"
    using dz_bounds [of da Female f] by (simp add: se_female_def se_proportion_eq)
next
  assume "dz da Female = Some f \<and> dz da Male = Some m"
  then show "se_male da = Some (sqrt (Proportion m * (1 - Proportion m) / real (Total_n m)))"
    using dz_bounds [of da Male m] by (simp add: se_male_def se_proportion_eq)
next
  assume "dz da' Female = None"
  then show "se_female da' = None" "se_male da' = None"
    by (simp_all add: se_female_def se_male_def)
next
  assume "dz da'' Male = None"
  then show "se_male da'' = None"
    by (cases "dz da'' Female") (simp_all add: se_male_def)
next
  assume "pr da b g = Some q \<and> dn da b g = Some k"
  then show "se da b g = Some (sqrt (q * (1 - q) / real k))"
    using pr_dn_bounds [of da b g q k] by (simp add: se_def se_proportion_eq)
qed

lemma dz_small: "dz da_small Female = Some \<lparr>Proportion = 1/2, Total_n = 2\<rparr>"
  "dz da_small Male = Some \<lparr>Proportion = 1/2, Total_n = 2\<rparr>"
  by (simp_all add: dz_def da_small_def dx_def dropna_def SMQ020x_def RIAGENDRx_def replace_SMQ020_def
      replace_RIAGENDR_def group_by_gender_def mean_is_Yes_def np_mean_def np_divide_def np_size_def)

lemma agegrp_25: "RIDAGEYR r = Some 25 \<Longrightarrow> agegrp r = Some 0"
  by (simp add: agegrp_def age_bins_def)

lemma dz_men: "dz da_men Female = None" "dz da_men Male = Some \<lparr>Proportion = 1/2, Total_n = 2\<rparr>"
  by (simp_all add: dz_def da_men_def dx_def dropna_def SMQ020x_def RIAGENDRx_def replace_SMQ020_def
      replace_RIAGENDR_def group_by_gender_def mean_is_Yes_def np_mean_def np_divide_def np_size_def)

lemma dz_women: "dz da_women Male = None"
  by (simp add: dz_def da_women_def dx_def dropna_def SMQ020x_def RIAGENDRx_def replace_SMQ020_def
      replace_RIAGENDR_def group_by_gender_def)

lemma pr_small: "pr da_small 0 Female = Some (1/2)" "dn da_small 0 Female = Some 2"
  by (simp_all add: pr_def dn_def columns_Female_Male_def gender_labels_def List.map_filter_simps
      da_small_def band_rows_def agegrp_def age_bins_def SMQ020x_def RIAGENDRx_def replace_SMQ020_def
      replace_RIAGENDR_def mean_is_Yes_def np_mean_def np_divide_def np_size_def insert_commute)

theorem standard_error_of_proportion_witness:
  "((0::real) \<le> 1/2 \<and> (1/2::real) \<le> 1 \<and> (0::nat) < 4 \<and> se_proportion (1/2) 4 = Some (1/4))
   \<and> (dz da_small Female = Some \<lparr>Proportion = 1/2, Total_n = 2\<rparr> \<and>
        se_female da_small = Some (sqrt (1/8)))
   \<and> (dz da_small Female = Some \<lparr>Proportion = 1/2, Total_n = 2\<rparr> \<and>
        dz da_small Male = Some \<lparr>Proportion = 1/2, Total_n = 2\<rparr> \<and>
        se_male da_small = Some (sqrt (1/8)))
   \<and> (dz da_men Female = None \<and> se_female da_men = None \<and> se_male da_men = None)
   \<and> (dz da_women Male = None \<and> se_male da_women = None)
   \<and> (pr da_small 0 Female = Some (1/2) \<and> dn da_small 0 Female = Some 2 \<and>
        se da_small 0 Female = Some (sqrt (1/8)))"
  using standard_error_of_proportion [where p = "1/2" and n = 4 and da = da_small
      and f = "\<lparr>Proportion = 1/2, Total_n = 2\<rparr>" and m = "\<lparr>Proportion = 1/2, Total_n = 2\<rparr>"
      and da' = da_men and da'' = da_women and b = 0 and g = Female and q = "1/2" and k = 2]
  by (simp add: dz_small dz_men dz_women pr_small real_sqrt_divide)

lemma lcb_ucb_proportion_eq:
  "lcb_ucb_proportion p n = map_option (\<lambda>s. (p - 1.96 * s, p + 1.96 * s)) (se_proportion p n)"
  by (cases "se_proportion p n") (simp_all add: lcb_ucb_proportion_def)

text \<open>
  C10: for \<open>0 \<le> p \<le> 1\<close> and \<open>n > 0\<close> the radicand \<open>p * (1 - p) / n\<close> is not negative,
  the divisor is not zero, and the standard error and both interval bounds are
  real numbers: the computation never takes the \<open>None\<close> branch.
\<close>

theorem proportion_interval_well_defined:
  assumes "0 \<le> p" and "p \<le> 1" and "0 < n"
  shows "0 \<le> p * (1 - p) / real n \<and> real n \<noteq> 0
         \<and> np_divide (p * (1 - p)) (real n) = Some (p * (1 - p) / real n)
         \<and> (\<exists>s. se_proportion p n = Some s)
         \<and> (\<exists>l u. lcb_ucb_proportion p n = Some (l, u))"
  using assms by (simp add: lcb_ucb_proportion_eq se_proportion_eq np_divide_Some)

theorem proportion_interval_well_defined_witness:
  "(0::real) \<le> 1/2 \<and> (1/2::real) \<le> 1 \<and> (0::nat) < 4
   \<and> (0::real) \<le> 1/2 * (1 - 1/2) / real (4::nat) \<and> real (4::nat) \<noteq> 0
   \<and> np_divide (1/2 * (1 - 1/2)) (real (4::nat)) = Some (1/16)
   \<and> (\<exists>s. se_proportion (1/2) 4 = Some s)
   \<and> (\<exists>l u. lcb_ucb_proportion (1/2) 4 = Some (l, u))"
  using proportion_interval_well_defined [of "1/2" 4] by simp

subsection \<open>Width and sample size\<close>

lemma f64_exponent_eq:
  assumes "2 powr real_of_int e \<le> \<bar>x\<bar>" and "\<bar>x\<bar> < 2 powr real_of_int (e + 1)"
    and "- 1022 \<le> e"
  shows "f64_exponent x = e"
proof -
  have "0 < 2 powr real_of_int e" by simp
  with assms(1) have "0 < \<bar>x\<bar>" by linarith
  then have "\<lfloor>log 2 \<bar>x\<bar>\<rfloor> = e"
    using assms(1,2) by (simp add: floor_log_eq_powr_iff)
  with assms(3) show ?thesis by (simp add: f64_exponent_def)
qed

lemma f64_in_binade:
  assumes "2 powr real_of_int e \<le> \<bar>x\<bar>" and "\<bar>x\<bar> < 2 powr real_of_int (e + 1)"
    and "- 1022 \<le> e"
    and "\<bar>real_of_int (round_half_even (x / 2 powr real_of_int (e - 52)))
            * 2 powr real_of_int (e - 52)\<bar> < 2 ^ 1024"
  shows "f64 x = Some (real_of_int (round_half_even (x / 2 powr real_of_int (e - 52)))
                         * 2 powr real_of_int (e - 52))"
proof -
  have "0 < 2 powr real_of_int e" by simp
  with assms(1) have "x \<noteq> 0" by auto
  with assms(4) show ?thesis
    by (simp add: f64_def Let_def f64_exponent_eq [OF assms(1-3)])
qed

lemma f64_196: "f64 1.96 = Some (8827055269646172 / 2 ^ 52)"
  using f64_in_binade [of 0 "1.96"]
  by (simp add: round_half_even_def Let_def powr_neg_numeral)

lemma f64_exact:
  "f64 (1/2) = Some (1/2)" "f64 (1/4) = Some (1/4)" "f64 16 = Some 16" "f64 64 = Some 64"
  "f64 (1/64) = Some (1/64)" "f64 (1/256) = Some (1/256)"
  "f64 (1/8) = Some (1/8)" "f64 (1/16) = Some (1/16)"
  using f64_in_binade [of "-1" "1/2"] f64_in_binade [of "-2" "1/4"] f64_in_binade [of 4 16]
    f64_in_binade [of 6 64] f64_in_binade [of "-6" "1/64"] f64_in_binade [of "-8" "1/256"]
    f64_in_binade [of "-3" "1/8"] f64_in_binade [of "-4" "1/16"]
  by (simp_all add: round_half_even_def Let_def powr_neg_numeral)

lemma sqrt_64_256: "sqrt (1/64) = 1/8" "sqrt (1/256) = 1/16"
proof -
  show "sqrt (1/64) = 1/8"
    by (rule real_sqrt_unique) (simp_all add: power2_eq_square)
  show "sqrt (1/256) = 1/16"
    by (rule real_sqrt_unique) (simp_all add: power2_eq_square)
qed

lemma se_f64_16: "se_proportion_f64 (1/2) 16 = Some (1/8)"
  by (simp add: se_proportion_f64_def f64_sub_def f64_mul_def f64_div_def f64_sqrt_def
      f64_exact sqrt_64_256)

lemma se_f64_64: "se_proportion_f64 (1/2) 64 = Some (1/16)"
  by (simp add: se_proportion_f64_def f64_sub_def f64_mul_def f64_div_def f64_sqrt_def
      f64_exact sqrt_64_256)

lemma f64_products:
  "f64 (8827055269646172 / 2 ^ 52 * (1/8)) = Some (8827055269646172 / 2 ^ 55)"
  "f64 (8827055269646172 / 2 ^ 52 * (1/16)) = Some (8827055269646172 / 2 ^ 56)"
  using f64_in_binade [of "-3" "8827055269646172 / 2 ^ 52 * (1/8)"]
    f64_in_binade [of "-4" "8827055269646172 / 2 ^ 52 * (1/16)"]
  by (simp_all add: round_half_even_def Let_def powr_neg_numeral)

lemma f64_bounds_16:
  "f64 (1/2 - 8827055269646172 / 2 ^ 55) = Some (2296835809958953 / 2 ^ 53)"
  "f64 (1/2 + 8827055269646172 / 2 ^ 55) = Some (6710363444782039 / 2 ^ 53)"
  using f64_in_binade [of "-2" "1/2 - 8827055269646172 / 2 ^ 55"]
    f64_in_binade [of "-1" "1/2 + 8827055269646172 / 2 ^ 55"]
  by (simp_all add: round_half_even_def Let_def powr_neg_numeral)

lemma f64_bounds_64:
  "f64 (1/2 - 8827055269646172 / 2 ^ 56) = Some (6800435437329449 / 2 ^ 54)"
  "f64 (1/2 + 8827055269646172 / 2 ^ 56) = Some (1401745384019067 / 2 ^ 51)"
  using f64_in_binade [of "-2" "1/2 - 8827055269646172 / 2 ^ 56"]
    f64_in_binade [of "-1" "1/2 + 8827055269646172 / 2 ^ 56"]
  by (simp_all add: round_half_even_def Let_def powr_neg_numeral)

lemma ci_f64_16:
  "lcb_ucb_proportion_f64 (1/2) 16 = Some (2296835809958953 / 2 ^ 53, 6710363444782039 / 2 ^ 53)"
  unfolding lcb_ucb_proportion_f64_def f64_196 se_f64_16 f64_mul_def f64_sub_def f64_add_def
  by (simp only: bind.bind_lunit f64_products f64_bounds_16)

lemma ci_f64_64:
  "lcb_ucb_proportion_f64 (1/2) 64 = Some (6800435437329449 / 2 ^ 54, 1401745384019067 / 2 ^ 51)"
  unfolding lcb_ucb_proportion_f64_def f64_196 se_f64_64 f64_mul_def f64_sub_def f64_add_def
  by (simp only: bind.bind_lunit f64_products f64_bounds_64)

lemma f64_widths:
  "f64_sub (6710363444782039 / 2 ^ 53) (2296835809958953 / 2 ^ 53)
     = Some (6710363444782039 / 2 ^ 53 - 2296835809958953 / 2 ^ 53)"
  "f64_sub (1401745384019067 / 2 ^ 51) (6800435437329449 / 2 ^ 54)
     = Some (1401745384019067 / 2 ^ 51 - 6800435437329449 / 2 ^ 54)"
  using f64_in_binade [of "-2" "6710363444782039 / 2 ^ 53 - 2296835809958953 / 2 ^ 53"]
    f64_in_binade [of "-3" "1401745384019067 / 2 ^ 51 - 6800435437329449 / 2 ^ 54"]
  by (simp_all add: f64_sub_def round_half_even_def Let_def powr_neg_numeral)

text \<open>
  C6, as stated, fails for the numbers the notebook computes with. In 64-bit floating
  point, at \<open>p = 1/2\<close> the interval for \<open>n = 16\<close> is \<open>(0.255, 0.745)\<close> and the one for
  \<open>4 * n = 64\<close> is \<open>(0.3775, 0.6225)\<close>, each bound being the nearest float; the two
  widths, which are floats too, are 0.49 and 0.24500000000000005, and the second is
  not half the first.
\<close>

theorem width_not_halved_in_floats:
  "lcb_ucb_proportion_f64 (1/2) 16
     = Some (2296835809958953 / 2 ^ 53, 6710363444782039 / 2 ^ 53)
   \<and> lcb_ucb_proportion_f64 (1/2) (4 * 16)
     = Some (6800435437329449 / 2 ^ 54, 1401745384019067 / 2 ^ 51)
   \<and> f64_sub (6710363444782039 / 2 ^ 53) (2296835809958953 / 2 ^ 53)
     = Some (6710363444782039 / 2 ^ 53 - 2296835809958953 / 2 ^ 53)
   \<and> f64_sub (1401745384019067 / 2 ^ 51) (6800435437329449 / 2 ^ 54)
     = Some (1401745384019067 / 2 ^ 51 - 6800435437329449 / 2 ^ 54)
   \<and> (1401745384019067 / 2 ^ 51 - 6800435437329449 / 2 ^ 54 :: real)
     \<noteq> (6710363444782039 / 2 ^ 53 - 2296835809958953 / 2 ^ 53) / 2"
proof -
  have n: "(4 * 16 :: nat) = 64" by simp
  have d: "(1401745384019067 / 2 ^ 51 - 6800435437329449 / 2 ^ 54 :: real)
     \<noteq> (6710363444782039 / 2 ^ 53 - 2296835809958953 / 2 ^ 53) / 2" by simp
  show ?thesis
    unfolding n
    by (rule conjI [OF ci_f64_16 conjI [OF ci_f64_64 conjI [OF f64_widths(1)
          conjI [OF f64_widths(2) d]]]])
qed

text \<open>
  C6, amended: over the real numbers, for \<open>0 \<le> p \<le> 1\<close> and \<open>n > 0\<close>, the interval runs
  from \<open>p - 1.96 * sqrt (p * (1 - p) / n)\<close> to \<open>p + 1.96 * sqrt (p * (1 - p) / n)\<close>, its
  width is \<open>2 * 1.96 * sqrt (p * (1 - p) / n)\<close>, and the width at sample size \<open>4 * n\<close> is
  exactly half the width at sample size \<open>n\<close>. The halving is not claimed for the
  rounded bounds that 64-bit floating point yields.
\<close>

theorem width_halves_over_the_reals:
  assumes "0 \<le> p" and "p \<le> 1" and "0 < n"
  shows "lcb_ucb_proportion p n
           = Some (p - 1.96 * sqrt (p * (1 - p) / real n), p + 1.96 * sqrt (p * (1 - p) / real n))
         \<and> lcb_ucb_proportion p (4 * n)
           = Some (p - 1.96 * sqrt (p * (1 - p) / real (4 * n)),
                   p + 1.96 * sqrt (p * (1 - p) / real (4 * n)))
         \<and> (\<exists>l u l' u'. lcb_ucb_proportion p n = Some (l, u)
              \<and> lcb_ucb_proportion p (4 * n) = Some (l', u')
              \<and> u - l = 2 * 1.96 * sqrt (p * (1 - p) / real n)
              \<and> u' - l' = 2 * 1.96 * sqrt (p * (1 - p) / real (4 * n))
              \<and> u' - l' = (u - l) / 2)"
proof -
  let ?s = "sqrt (p * (1 - p) / real n)"
  have s4: "sqrt (p * (1 - p) / real (4 * n)) = ?s / 2"
  proof -
    have "p * (1 - p) / real (4 * n) = (p * (1 - p) / real n) / 4" by simp
    then show ?thesis by (simp only: real_sqrt_divide [of _ 4] real_sqrt_four)
  qed
  have a: "lcb_ucb_proportion p n = Some (p - 1.96 * ?s, p + 1.96 * ?s)"
    using assms by (simp add: lcb_ucb_proportion_eq se_proportion_eq)
  from assms(3) have "0 < 4 * n" by simp
  with assms(1,2) have b: "lcb_ucb_proportion p (4 * n)
           = Some (p - 1.96 * sqrt (p * (1 - p) / real (4 * n)),
                   p + 1.96 * sqrt (p * (1 - p) / real (4 * n)))"
    by (simp only: lcb_ucb_proportion_eq se_proportion_eq option.map)
  have c: "\<exists>l u l' u'. lcb_ucb_proportion p n = Some (l, u)
              \<and> lcb_ucb_proportion p (4 * n) = Some (l', u')
              \<and> u - l = 2 * 1.96 * sqrt (p * (1 - p) / real n)
              \<and> u' - l' = 2 * 1.96 * sqrt (p * (1 - p) / real (4 * n))
              \<and> u' - l' = (u - l) / 2"
  proof -
    from s4 have s4': "sqrt (p * (1 - p) / (4 * real n)) = ?s / 2" by simp
    show ?thesis unfolding a b by (simp add: s4')
  qed
  from a b c show ?thesis by (intro conjI)
qed

theorem width_halves_over_the_reals_witness:
  "((0::real) \<le> 1/2 \<and> (1/2::real) \<le> 1 \<and> (0::nat) < 16)
   \<and> lcb_ucb_proportion (1/2) 16 = Some (1/2 - 1.96 * (1/8), 1/2 + 1.96 * (1/8))
   \<and> lcb_ucb_proportion (1/2) (4 * 16) = Some (1/2 - 1.96 * (1/16), 1/2 + 1.96 * (1/16))
   \<and> (\<exists>l u l' u'. lcb_ucb_proportion (1/2) 16 = Some (l, u)
        \<and> lcb_ucb_proportion (1/2) (4 * 16) = Some (l', u')
        \<and> u - l = 2 * 1.96 * (1/8)
        \<and> u' - l' = 2 * 1.96 * (1/16)
        \<and> u' - l' = (u - l) / 2)"
proof -
  have h: "(0::real) \<le> 1/2" "(1/2::real) \<le> 1" "(0::nat) < 16" by simp_all
  have e: "1/2 * (1 - 1/2) / real (16::nat) = 1/64"
    "1/2 * (1 - 1/2) / real (4 * 16 :: nat) = 1/256" by simp_all
  note t = width_halves_over_the_reals [OF h, unfolded e sqrt_64_256]
  show ?thesis
    by (rule conjI [OF conjI [OF h(1) conjI [OF h(2) h(3)]] t])
qed

subsection \<open>Standard error of a difference\<close>

lemma sqrt_sum_squares_eq: "sqrt_sum_squares a b = Some (sqrt (a\<^sup>2 + b\<^sup>2))"
  by (simp add: sqrt_sum_squares_def np_sqrt_def not_less)

text \<open>
  C3: the standard error of a difference is \<open>sqrt (SE1\<^sup>2 + SE2\<^sup>2)\<close> of the two standard
  errors: for the difference of the smoking proportions, for the differences within
  age bands, and for the differences of mean BMI (overall and within age bands).
\<close>

theorem se_of_difference:
  "sqrt_sum_squares a b = Some (sqrt (a\<^sup>2 + b\<^sup>2))
   \<and> (se_female da = Some sf \<and> se_male da = Some sm \<longrightarrow>
        se_diff da = Some (sqrt (sf\<^sup>2 + sm\<^sup>2)))
   \<and> (se da i Female = Some af \<and> se da i Male = Some am \<longrightarrow>
        se_diff_age da i = Some (sqrt (af\<^sup>2 + am\<^sup>2)))
   \<and> (sem_female = Some bf \<and> sem_male = Some bm \<longrightarrow>
        sem_diff = Some (sqrt (bf\<^sup>2 + bm\<^sup>2)))
   \<and> (bmi_sem da i Female = Some cf \<and> bmi_sem da i Male = Some cm \<longrightarrow>
        sem_diff_age da i = Some (sqrt (cf\<^sup>2 + cm\<^sup>2)))"
proof (intro conjI impI)
  show "sqrt_sum_squares a b = Some (sqrt (a\<^sup>2 + b\<^sup>2))"
    by (rule sqrt_sum_squares_eq)
next
  assume "se_female da = Some sf \<and> se_male da = Some sm"
  then show "se_diff da = Some (sqrt (sf\<^sup>2 + sm\<^sup>2))"
    by (simp add: se_diff_def sqrt_sum_squares_eq)
next
  assume "se da i Female = Some af \<and> se da i Male = Some am"
  then show "se_diff_age da i = Some (sqrt (af\<^sup>2 + am\<^sup>2))"
    by (simp add: se_diff_age_def sqrt_sum_squares_eq)
next
  assume "sem_female = Some bf \<and> sem_male = Some bm"
  then have f: "sem_female = Some bf" and m: "sem_male = Some bm" by simp_all
  show "sem_diff = Some (sqrt (bf\<^sup>2 + bm\<^sup>2))"
    unfolding sem_diff_def f m by (simp add: sqrt_sum_squares_eq)
next
  assume "bmi_sem da i Female = Some cf \<and> bmi_sem da i Male = Some cm"
  then show "sem_diff_age da i = Some (sqrt (cf\<^sup>2 + cm\<^sup>2))"
    by (simp add: sem_diff_age_def sqrt_sum_squares_eq)
qed

lemma se_small: "se_female da_small = Some (sqrt (1/8))" "se_male da_small = Some (sqrt (1/8))"
  by (simp_all add: se_female_def se_male_def dz_small se_proportion_eq)

lemma se_age_small:
  "se da_small 0 Female = Some (sqrt (1/8))" "se da_small 0 Male = Some (sqrt (1/8))"
  by (simp_all add: se_def pr_def dn_def columns_Female_Male_def gender_labels_def List.map_filter_simps
      da_small_def band_rows_def agegrp_def age_bins_def SMQ020x_def RIAGENDRx_def replace_SMQ020_def
      replace_RIAGENDR_def mean_is_Yes_def np_mean_def np_divide_def np_size_def insert_commute
      se_proportion_def np_sqrt_def)

lemma sem_const:
  "sem_female = Some (7.753 / sqrt 2976)" "sem_male = Some (6.253 / sqrt 2759)"
  by (simp_all add: sem_female_def sem_male_def np_sqrt_def np_divide_def)

lemma bmi_sem_small:
  "bmi_sem da_small 0 Female = Some (sqrt 50 / sqrt 2)"
  "bmi_sem da_small 0 Male = Some (sqrt 8 / sqrt 2)"
  by (simp_all add: bmi_sem_def bmi_std_def bmi_size_def has_column_def gender_labels_def
      List.map_filter_simps da_small_def band_rows_def agegrp_def age_bins_def RIAGENDRx_def
      replace_RIAGENDR_def BMXBMI_values_def pd_std_def np_mean_def np_divide_def np_size_def
      np_sqrt_def power2_eq_square)

theorem se_of_difference_witness:
  "sqrt_sum_squares 3 4 = Some 5
   \<and> (se_female da_small = Some (sqrt (1/8)) \<and> se_male da_small = Some (sqrt (1/8)) \<and>
        se_diff da_small = Some (1/2))
   \<and> (se da_small 0 Female = Some (sqrt (1/8)) \<and> se da_small 0 Male = Some (sqrt (1/8)) \<and>
        se_diff_age da_small 0 = Some (1/2))
   \<and> (sem_female = Some (7.753 / sqrt 2976) \<and> sem_male = Some (6.253 / sqrt 2759) \<and>
        sem_diff = Some (sqrt ((7.753 / sqrt 2976)\<^sup>2 + (6.253 / sqrt 2759)\<^sup>2)))
   \<and> (bmi_sem da_small 0 Female = Some (sqrt 50 / sqrt 2) \<and>
        bmi_sem da_small 0 Male = Some (sqrt 8 / sqrt 2) \<and>
        sem_diff_age da_small 0 = Some (sqrt ((sqrt 50 / sqrt 2)\<^sup>2 + (sqrt 8 / sqrt 2)\<^sup>2)))"
proof -
  have e: "sqrt ((3::real)\<^sup>2 + 4\<^sup>2) = 5"
    by (rule real_sqrt_unique) simp_all
  have q: "sqrt (1/4 :: real) = 1/2"
    by (rule real_sqrt_unique) (simp_all add: power2_eq_square)
  have h: "(sqrt (1/8 :: real))\<^sup>2 + (sqrt (1/8))\<^sup>2 = 1/4"
    by simp
  show ?thesis
    using se_of_difference [of 3 4 da_small "sqrt (1/8)" "sqrt (1/8)" 0 "sqrt (1/8)" "sqrt (1/8)"
        "7.753 / sqrt 2976" "6.253 / sqrt 2759" "sqrt 50 / sqrt 2" "sqrt 8 / sqrt 2"]
    by (simp only: se_small se_age_small sem_const bmi_sem_small e q h simp_thms)
qed

lemma d_small: "d_proportion da_small = Some 0"
  by (simp add: d_proportion_def dz_small)

lemma sqrt_quarter: "sqrt (1/4 :: real) = 1/2"
  by (rule real_sqrt_unique) (simp_all add: power2_eq_square)

lemma se_diff_small: "se_diff da_small = Some (1/2)"
  by (simp add: se_diff_def se_small sqrt_sum_squares_eq sqrt_quarter)

lemma ci_diff_small: "ci_diff_proportion da_small = Some (-1, 1)"
  by (simp add: ci_diff_proportion_def d_small se_diff_small lcb_ucb_2_def)

lemma pq_small: "pq da_small 0 = Some 0"
  by (simp add: pq_def pr_def columns_Female_Male_def gender_labels_def List.map_filter_simps
      da_small_def band_rows_def agegrp_def age_bins_def SMQ020x_def RIAGENDRx_def replace_SMQ020_def
      replace_RIAGENDR_def mean_is_Yes_def np_mean_def np_divide_def insert_commute)

lemma se_diff_age_small: "se_diff_age da_small 0 = Some (1/2)"
  by (simp add: se_diff_age_def se_age_small sqrt_sum_squares_eq sqrt_quarter)

lemma mean_diff_small: "mean_diff da_small 0 = Some 1"
  by (simp add: mean_diff_def bmi_mean_def has_column_def gender_labels_def
      List.map_filter_simps da_small_def band_rows_def agegrp_def age_bins_def RIAGENDRx_def
      replace_RIAGENDR_def BMXBMI_values_def np_mean_def np_divide_def)

lemma sem_diff_age_small:
  "sem_diff_age da_small 0 = Some (sqrt 29)"
proof -
  have "(sqrt 50 / sqrt 2)\<^sup>2 + (sqrt 8 / sqrt 2)\<^sup>2 = (29::real)"
    by (simp add: power_divide)
  then show ?thesis
    by (simp add: sem_diff_age_def bmi_sem_small sqrt_sum_squares_eq)
qed

lemma sem_diff_const:
  "sem_diff = Some (sqrt ((7.753 / sqrt 2976)\<^sup>2 + (6.253 / sqrt 2759)\<^sup>2))"
  unfolding sem_diff_def sem_const by (simp add: sqrt_sum_squares_eq)

subsection \<open>Intervals contain their estimate\<close>



lemma lcb_ucb_2_contains: "0 \<le> s \<Longrightarrow> fst (lcb_ucb_2 e s) \<le> e \<and> e \<le> snd (lcb_ucb_2 e s)"
  by (simp add: lcb_ucb_2_def)





lemma z_975_nonneg: "0 \<le> z_975"
  by (simp add: z_975_def)








lemma zconfint_20_30:
  "zconfint_mean z_975 [20, 30] = Some (25 - z_975 * sqrt 25, 25 + z_975 * sqrt 25)"
  by (simp add: zconfint_mean_def np_mean_def np_divide_def np_sqrt_def)


subsection \<open>Age bands\<close>















subsection \<open>Missing smoking answers\<close>

text \<open>
  C9 at the table \<open>da_missing\<close>: the overall computation drops the woman with code 7
  (proportion 1 of 1), the age-band computation of cell 27 keeps her in the
  denominator and in the count (proportion 1/2 of 2).
\<close>

theorem age_band_proportion_counts_missing_answers:
  "dz da_missing Female = Some \<lparr>Proportion = 1, Total_n = 1\<rparr>
   \<and> pr da_missing 0 Female = Some (1/2)
   \<and> dn da_missing 0 Female = Some 2"
  by (simp add: dz_def dx_def dropna_def group_by_gender_def pr_def dn_def columns_Female_Male_def
      gender_labels_def List.map_filter_simps da_missing_def band_rows_def agegrp_def age_bins_def
      SMQ020x_def RIAGENDRx_def replace_SMQ020_def replace_RIAGENDR_def mean_is_Yes_def
      np_mean_def np_divide_def np_size_def insert_commute)

subsection \<open>The subsampling simulation\<close>

lemma length_draw_rows: "length (draw_rows ks xs) = min (length ks) (length xs)"
proof (induction ks arbitrary: xs)
  case Nil
  then show ?case by simp
next
  case (Cons k ks)
  show ?case
  proof (cases "xs = []")
    case True
    then show ?thesis by simp
  next
    case False
    then have "k mod length xs < length xs" by simp
    then have "length (take (k mod length xs) xs @ drop (Suc (k mod length xs)) xs) = length xs - 1"
      by simp
    with False show ?thesis
      by (simp add: Let_def Cons.IH del: length_append length_take length_drop) (cases xs; simp)
  qed
qed

lemma mset_draw_rows: "mset (draw_rows ks xs) \<subseteq># mset xs"
proof (induction ks arbitrary: xs)
  case Nil
  then show ?case by simp
next
  case (Cons k ks)
  show ?case
  proof (cases "xs = []")
    case True
    then show ?thesis by simp
  next
    case False
    let ?i = "k mod length xs"
    let ?rest = "take ?i xs @ drop (Suc ?i) xs"
    from False have i: "?i < length xs" by simp
    have "mset xs = add_mset (xs ! ?i) (mset ?rest)"
      using id_take_nth_drop [OF i] by (metis mset.simps(2) mset_append union_mset_add_mset_right)
    moreover have "mset (draw_rows ks ?rest) \<subseteq># mset ?rest" by (rule Cons.IH)
    ultimately show ?thesis using False by (simp add: Let_def)
  qed
qed

lemma draw_rows_first:
  "xs \<noteq> [] \<Longrightarrow> hd (draw_rows (k # ks) xs) = xs ! (k mod length xs)"
  by (simp add: Let_def)

lemma draw_rows_complete_aux:
  "length ps = n \<Longrightarrow> distinct ps \<Longrightarrow> set ps \<subseteq> {..<length xs} \<Longrightarrow>
   \<exists>ks. length ks = n \<and> draw_rows ks xs = map ((!) xs) ps"
proof (induction n arbitrary: ps xs)
  case 0
  then have "length ([] :: nat list) = 0 \<and> draw_rows [] xs = map ((!) xs) ps" by simp
  then show ?case by (rule exI)
next
  case (Suc n)
  from Suc.prems(1) obtain p qs where ps: "ps = p # qs" and lq: "length qs = n"
    by (auto simp: length_Suc_conv)
  let ?rest = "take p xs @ drop (Suc p) xs"
  let ?f = "\<lambda>j. if j < p then j else j - 1"
  from Suc.prems ps have p: "p < length xs" and notin: "p \<notin> set qs" and dist: "distinct qs"
    and sub: "\<forall>j\<in>set qs. j < length xs" by auto
  have len: "length ?rest = length xs - 1" using p by simp
  have inj: "inj_on ?f (set qs)"
  proof (rule inj_onI)
    fix a b assume "a \<in> set qs" "b \<in> set qs" and e: "?f a = ?f b"
    with notin have "a \<noteq> p" "b \<noteq> p" by auto
    with e show "a = b" by (auto split: if_splits)
  qed
  with dist have d': "distinct (map ?f qs)" by (simp add: distinct_map)
  have s': "set (map ?f qs) \<subseteq> {..<length ?rest}"
  proof
    fix y assume "y \<in> set (map ?f qs)"
    then obtain j where j: "j \<in> set qs" "y = ?f j" by auto
    with notin sub have "j \<noteq> p" "j < length xs" by auto
    with j p len show "y \<in> {..<length ?rest}" by (auto simp del: length_append)
  qed
  have nth: "?rest ! ?f j = xs ! j" if "j \<in> set qs" for j
  proof -
    from that notin sub have j: "j \<noteq> p" "j < length xs" by auto
    show ?thesis
    proof (cases "j < p")
      case True
      with p show ?thesis by (simp add: nth_append)
    next
      case False
      with j have pj: "p < j" by simp
      then have n: "\<not> j - Suc 0 < p" and m: "Suc (p + (j - Suc 0 - p)) = j" by arith+
      from p j pj show ?thesis by (simp add: nth_append min_def n m)
    qed
  qed
  have "length (map ?f qs) = n" using lq by simp
  from Suc.IH [OF this d' s'] obtain ks where ks: "length ks = n"
    "draw_rows ks ?rest = map ((!) ?rest) (map ?f qs)" by blast
  from nth have "map ((!) ?rest) (map ?f qs) = map ((!) xs) qs" by simp
  with ks p ps have "length (p # ks) = Suc n \<and> draw_rows (p # ks) xs = map ((!) xs) ps"
    by (auto simp: Let_def)
  then show ?case by (rule exI)
qed

lemma draw_rows_complete:
  "distinct ps \<Longrightarrow> set ps \<subseteq> {..<length xs} \<Longrightarrow>
   \<exists>ks. length ks = length ps \<and> draw_rows ks xs = map ((!) xs) ps"
  by (rule draw_rows_complete_aux) simp_all

lemma sample_Some:
  "n \<le> length xs \<Longrightarrow> sample n xs rng = Some (draw_rows (stake n rng) xs, sdrop n rng)"
  by (simp add: sample_def)

lemma length_nth_sample: "n \<le> length d \<Longrightarrow> length (nth_sample n d rng k) = n"
  by (simp add: nth_sample_def length_draw_rows)

lemma mset_nth_sample: "mset (nth_sample n d rng k) \<subseteq># mset d"
  by (simp add: nth_sample_def mset_draw_rows)

lemma length_BMXBMI_column:
  "\<forall>p\<in>set s. snd p \<noteq> None \<Longrightarrow> length (BMXBMI_column s) = length s"
  by (induction s) (auto simp: BMXBMI_column_def List.map_filter_simps)

lemma sum_list_squares_nonneg: "0 \<le> sum_list (map (\<lambda>x. (x - m)\<^sup>2) (xs :: real list))"
  by (rule sum_list_nonneg) auto

lemma zconfint_mean_eq:
  assumes "2 \<le> length xs"
  shows "zconfint_mean z xs =
     Some (sum_list xs / real (length xs)
             - z * (sqrt (sum_list (map (\<lambda>x. (x - sum_list xs / real (length xs))\<^sup>2) xs)
                      / real (length xs)) / sqrt (real (length xs) - 1)),
           sum_list xs / real (length xs)
             + z * (sqrt (sum_list (map (\<lambda>x. (x - sum_list xs / real (length xs))\<^sup>2) xs)
                      / real (length xs)) / sqrt (real (length xs) - 1)))"
proof -
  let ?n = "real (length xs)"
  let ?m = "sum_list xs / ?n"
  let ?ss = "sum_list (map (\<lambda>x. (x - ?m)\<^sup>2) xs)"
  from assms have n: "?n \<noteq> 0" and n1: "0 \<le> ?n - 1" and n2: "sqrt (?n - 1) \<noteq> 0"
    by auto
  have v: "0 \<le> ?ss / ?n" using sum_list_squares_nonneg [of ?m xs] by simp
  have a: "np_mean xs = Some ?m"
    unfolding np_mean_def by (rule np_divide_Some) (rule n)
  have b: "np_divide ?ss ?n = Some (?ss / ?n)"
    by (rule np_divide_Some) (rule n)
  have c: "np_sqrt (?ss / ?n) = Some (sqrt (?ss / ?n))"
    by (rule np_sqrt_Some) (rule v)
  have d: "np_sqrt (?n - 1) = Some (sqrt (?n - 1))"
    by (rule np_sqrt_Some) (rule n1)
  have e: "np_divide (sqrt (?ss / ?n)) (sqrt (?n - 1)) = Some (sqrt (?ss / ?n) / sqrt (?n - 1))"
    by (rule np_divide_Some) (rule n2)
  show ?thesis
    by (simp add: zconfint_mean_def a b c d e)
qed

lemma nth_ci_defined:
  assumes "2 \<le> n" and "n \<le> length d" and "\<forall>p\<in>set d. snd p \<noteq> None"
  shows "\<exists>ci. nth_ci z n d rng k = Some ci"
proof -
  let ?s = "nth_sample n d rng k"
  have "set ?s \<subseteq> set d"
    using mset_nth_sample [of n d rng k] by (metis set_mset_mono set_mset_mset)
  with assms(3) have "\<forall>p\<in>set ?s. snd p \<noteq> None" by blast
  then have "length (BMXBMI_column ?s) = n"
    using assms(2) by (simp add: length_BMXBMI_column length_nth_sample)
  with assms(1) show ?thesis
    by (simp add: nth_ci_def zconfint_mean_eq)
qed

lemma inner_loop_spec:
  assumes "2 \<le> n" and "n \<le> length d" and "\<forall>p\<in>set d. snd p \<noteq> None"
  shows "\<exists>cs'. inner_loop z i n d cs rng = Some (cs @ cs', sdrop (i * n) rng)
           \<and> length cs' = i \<and> (\<forall>k<i. nth_ci z n d rng k = Some (cs' ! k))"
proof (induction i arbitrary: cs rng)
  case 0
  then show ?case by simp
next
  case (Suc i)
  obtain ci where ci: "nth_ci z n d rng 0 = Some ci"
    using nth_ci_defined [OF assms] by blast
  obtain cs' where cs': "inner_loop z i n d (cs @ [ci]) (sdrop n rng)
        = Some ((cs @ [ci]) @ cs', sdrop (i * n) (sdrop n rng))"
      "length cs' = i" "\<forall>k<i. nth_ci z n d (sdrop n rng) k = Some (cs' ! k)"
    using Suc.IH [of "cs @ [ci]" "sdrop n rng"] by blast
  have shift: "nth_ci z n d (sdrop n rng) k = nth_ci z n d rng (Suc k)" for k
    by (simp add: nth_ci_def nth_sample_def add.commute)
  have "inner_loop z (Suc i) n d cs rng = Some (cs @ ci # cs', sdrop (Suc i * n) rng)"
    using ci cs'(1) assms(2)
    by (simp add: sample_Some nth_ci_def nth_sample_def add.commute)
  moreover have "length (ci # cs') = Suc i" using cs'(2) by simp
  moreover have "\<forall>k<Suc i. nth_ci z n d rng k = Some ((ci # cs') ! k)"
  proof (intro allI impI)
    fix k assume "k < Suc i"
    then show "nth_ci z n d rng k = Some ((ci # cs') ! k)"
      using ci cs'(3) shift by (cases k) auto
  qed
  ultimately show ?case by blast
qed

lemma np_mean_Some: "xs \<noteq> [] \<Longrightarrow> np_mean xs = Some (sum_list xs / real (length xs))"
  by (simp add: np_mean_def np_divide_def)

lemma outer_loop_spec:
  assumes "\<forall>p\<in>set d. snd p \<noteq> None" and "0 < reps"
  shows "\<forall>n\<in>set ns. 2 \<le> n \<and> n \<le> length d \<Longrightarrow>
    \<exists>ps css. outer_loop z reps ns d st rng =
        (\<lparr>printed = printed st @ ps, all_cis = all_cis st @ css\<rparr>,
         Some (sdrop (reps * sum_list ns) rng))
      \<and> length ps = length ns \<and> length css = length ns
      \<and> (\<forall>j<length ns. fst (ps ! j) = ns ! j \<and> length (css ! j) = reps
            \<and> (\<forall>k<reps. nth_ci z (ns ! j) d (sdrop (reps * sum_list (take j ns)) rng) k
                           = Some (css ! j ! k))
            \<and> snd (ps ! j) = sum_list (map snd (css ! j)) / real reps
                              - sum_list (map fst (css ! j)) / real reps)"
proof (induction ns arbitrary: st rng)
  case Nil
  then show ?case by simp
next
  case (Cons n ns)
  from Cons.prems have n: "2 \<le> n" "n \<le> length d"
    and ns: "\<forall>m\<in>set ns. 2 \<le> m \<and> m \<le> length d" by simp_all
  let ?rng = "sdrop (reps * n) rng"
  obtain cs where cs: "inner_loop z reps n d [] rng = Some (cs, ?rng)"
      "length cs = reps" "\<forall>k<reps. nth_ci z n d rng k = Some (cs ! k)"
    using inner_loop_spec [OF n assms(1), of z reps "[]" rng] by auto
  from cs(2) assms(2) have ne: "cs \<noteq> []" by auto
  let ?w = "sum_list (map snd cs) / real reps - sum_list (map fst cs) / real reps"
  let ?st = "\<lparr>printed = printed st @ [(n, ?w)], all_cis = all_cis st @ [cs]\<rparr>"
  have step: "outer_loop z reps (n # ns) d st rng = outer_loop z reps ns d ?st ?rng"
    using cs(1,2) ne by (simp add: np_mean_Some)
  obtain ps css where r: "outer_loop z reps ns d ?st ?rng =
        (\<lparr>printed = printed ?st @ ps, all_cis = all_cis ?st @ css\<rparr>,
         Some (sdrop (reps * sum_list ns) ?rng))"
      "length ps = length ns" "length css = length ns"
      "\<forall>j<length ns. fst (ps ! j) = ns ! j \<and> length (css ! j) = reps
            \<and> (\<forall>k<reps. nth_ci z (ns ! j) d (sdrop (reps * sum_list (take j ns)) ?rng) k
                           = Some (css ! j ! k))
            \<and> snd (ps ! j) = sum_list (map snd (css ! j)) / real reps
                              - sum_list (map fst (css ! j)) / real reps"
    using Cons.IH [OF ns, of ?st ?rng] by blast
  let ?ps = "(n, ?w) # ps" and ?css = "cs # css"
  have "outer_loop z reps (n # ns) d st rng =
        (\<lparr>printed = printed st @ ?ps, all_cis = all_cis st @ ?css\<rparr>,
         Some (sdrop (reps * sum_list (n # ns)) rng))"
    unfolding step r(1) by (simp add: distrib_left)
  moreover have "length ?ps = length (n # ns)" "length ?css = length (n # ns)"
    using r(2,3) by simp_all
  moreover have "\<forall>j<length (n # ns). fst (?ps ! j) = (n # ns) ! j \<and> length (?css ! j) = reps
            \<and> (\<forall>k<reps. nth_ci z ((n # ns) ! j) d (sdrop (reps * sum_list (take j (n # ns))) rng) k
                           = Some (?css ! j ! k))
            \<and> snd (?ps ! j) = sum_list (map snd (?css ! j)) / real reps
                              - sum_list (map fst (?css ! j)) / real reps"
  proof (intro allI impI)
    fix j assume j: "j < length (n # ns)"
    show "fst (?ps ! j) = (n # ns) ! j \<and> length (?css ! j) = reps
            \<and> (\<forall>k<reps. nth_ci z ((n # ns) ! j) d (sdrop (reps * sum_list (take j (n # ns))) rng) k
                           = Some (?css ! j ! k))
            \<and> snd (?ps ! j) = sum_list (map snd (?css ! j)) / real reps
                              - sum_list (map fst (?css ! j)) / real reps"
    proof (cases j)
      case 0
      then show ?thesis using cs(2,3) by simp
    next
      case (Suc j')
      with j have "j' < length ns" by simp
      with r(4) show ?thesis unfolding Suc by (simp add: distrib_left)
    qed
  qed
  ultimately show ?case by blast
qed

lemma dx_bmi_eq:
  "dx_bmi da = map (\<lambda>r. (RIAGENDRx r, BMXBMI r))
                 (filter (\<lambda>r. RIAGENDRx r = Some Female \<and> BMXBMI r \<noteq> None) da)"
proof -
  have "filter (\<lambda>r. RIAGENDRx r \<noteq> None \<and> BMXBMI r \<noteq> None) (filter (\<lambda>r. RIAGENDRx r = Some Female) da)
        = filter (\<lambda>r. RIAGENDRx r = Some Female \<and> BMXBMI r \<noteq> None) da"
    by (induction da) auto
  then show ?thesis
    by (simp add: dx_bmi_def dropna_def filter_map comp_def)
qed

lemma dx_bmi_no_missing: "\<forall>p\<in>set (dx_bmi da). snd p \<noteq> None"
  by (auto simp: dx_bmi_eq)

lemma inner_loop_too_few:
  "length d < n \<Longrightarrow> inner_loop z (Suc i) n d cs rng = None"
  by (simp add: sample_def)

lemma outer_loop_raises_first:
  "length d < n \<Longrightarrow> outer_loop z (Suc i) (n # ns) d st rng = (st, None)"
  by (simp add: sample_def)

lemma outer_loop_too_few:
  "\<exists>n\<in>set ns. length d < n \<Longrightarrow> snd (outer_loop z (Suc i) ns d st rng) = None"
proof (induction ns arbitrary: st rng)
  case Nil
  then show ?case by simp
next
  case (Cons n ns)
  show ?case
  proof (cases "length d < n")
    case True
    then show ?thesis by (simp only: outer_loop_raises_first snd_conv)
  next
    case False
    with Cons.prems have "\<exists>m\<in>set ns. length d < m" by simp
    then have "\<And>st' rng'. snd (outer_loop z (Suc i) ns d st' rng') = None" by (rule Cons.IH)
    then show ?thesis
      by (simp del: inner_loop.simps split: option.splits prod.splits)
  qed
qed

lemma sum_sample_sizes: "500 * sum_list sample_sizes = 750000"
  by (simp add: sample_sizes_def)

lemma simulation_too_few: "length (dx_bmi da) < 800 \<Longrightarrow> snd (simulation z da rng) = None"
proof -
  assume "length (dx_bmi da) < 800"
  then have "\<exists>n\<in>set sample_sizes. length (dx_bmi da) < n" by (simp add: sample_sizes_def)
  then have "snd (outer_loop z (Suc 499) sample_sizes (dx_bmi da)
               \<lparr>printed = [], all_cis = []\<rparr> rng) = None"
    by (rule outer_loop_too_few)
  then show ?thesis by (simp add: simulation_def)
qed

lemma simulation_raises_at_once:
  "length (dx_bmi da) < 100 \<Longrightarrow> simulation z da rng = (\<lparr>printed = [], all_cis = []\<rparr>, None)"
proof -
  assume "length (dx_bmi da) < 100"
  then have "outer_loop z (Suc 499) (100 # [200, 400, 800]) (dx_bmi da)
               \<lparr>printed = [], all_cis = []\<rparr> rng = (\<lparr>printed = [], all_cis = []\<rparr>, None)"
    by (rule outer_loop_raises_first)
  then show ?thesis by (simp add: simulation_def sample_sizes_def)
qed

lemma simulation_spec:
  assumes "800 \<le> length (dx_bmi da)"
  shows "\<exists>ps css. simulation z da rng =
        (\<lparr>printed = ps, all_cis = css\<rparr>, Some (sdrop 750000 rng))
      \<and> length ps = 4 \<and> length css = 4
      \<and> (\<forall>j<4. fst (ps ! j) = sample_sizes ! j \<and> length (css ! j) = 500
            \<and> (\<forall>k<500. nth_ci z (sample_sizes ! j) (dx_bmi da)
                           (sdrop (500 * sum_list (take j sample_sizes)) rng) k
                           = Some (css ! j ! k))
            \<and> snd (ps ! j) = sum_list (map snd (css ! j)) / 500
                              - sum_list (map fst (css ! j)) / 500)"
proof -
  let ?d = "dx_bmi da" and ?st = "\<lparr>printed = [], all_cis = []\<rparr>"
  have sizes: "\<forall>n\<in>set sample_sizes. 2 \<le> n \<and> n \<le> length ?d"
    using assms by (simp add: sample_sizes_def)
  have l4: "length sample_sizes = 4" by (simp add: sample_sizes_def)
  obtain ps css where r: "outer_loop z 500 sample_sizes ?d ?st rng =
        (\<lparr>printed = printed ?st @ ps, all_cis = all_cis ?st @ css\<rparr>,
         Some (sdrop (500 * sum_list sample_sizes) rng))"
      "length ps = length sample_sizes" "length css = length sample_sizes"
      "\<forall>j<length sample_sizes. fst (ps ! j) = sample_sizes ! j \<and> length (css ! j) = 500
            \<and> (\<forall>k<500. nth_ci z (sample_sizes ! j) ?d
                           (sdrop (500 * sum_list (take j sample_sizes)) rng) k
                           = Some (css ! j ! k))
            \<and> snd (ps ! j) = sum_list (map snd (css ! j)) / real (500::nat)
                              - sum_list (map fst (css ! j)) / real (500::nat)"
    using outer_loop_spec [where reps = 500 and z = z and st = ?st and rng = rng,
        OF dx_bmi_no_missing zero_less_numeral sizes] by blast
  have run: "simulation z da rng = (\<lparr>printed = ps, all_cis = css\<rparr>, Some (sdrop 750000 rng))"
    using r(1) by (simp add: simulation_def sum_sample_sizes)
  from r(2,3) l4 have len: "length ps = 4" "length css = 4" by simp_all
  from r(4) have each: "\<forall>j<4. fst (ps ! j) = sample_sizes ! j \<and> length (css ! j) = 500
            \<and> (\<forall>k<500. nth_ci z (sample_sizes ! j) ?d
                           (sdrop (500 * sum_list (take j sample_sizes)) rng) k
                           = Some (css ! j ! k))
            \<and> snd (ps ! j) = sum_list (map snd (css ! j)) / 500
                              - sum_list (map fst (css ! j)) / 500"
    unfolding l4 by simp
  show ?thesis
    using run len each by (intro exI conjI)
qed

text \<open>
  C5, as stated, fails on a table with few women: \<open>da_small\<close> has two female rows with
  BMI, \<^verbatim>\<open>dx.sample(100)\<close> raises, and nothing is drawn, printed or appended.
\<close>

theorem simulation_raises_on_small_table:
  "length (dx_bmi da_small) = 2
   \<and> simulation z_975 da_small (sconst 0) = (\<lparr>printed = [], all_cis = []\<rparr>, None)"
proof -
  have l: "length (dx_bmi da_small) = 2"
    by (simp add: dx_bmi_eq da_small_def RIAGENDRx_def replace_RIAGENDR_def)
  then have "length (dx_bmi da_small) < 100" by simp
  then have "simulation z_975 da_small (sconst 0) = (\<lparr>printed = [], all_cis = []\<rparr>, None)"
    by (rule simulation_raises_at_once)
  with l show ?thesis by (rule conjI)
qed

text \<open>
  C5, amended: the frame that is sampled holds the rows labelled Female whose BMI is
  present. When it has at least 800 rows, the simulation runs to its end and prints
  one line for each of the sizes 100, 200, 400, 800, in this order; for each size \<open>n\<close> it
  has 500 intervals, the interval number \<open>k\<close> being \<^verbatim>\<open>zconfint_mean\<close> of the BMI column of
  the \<open>n\<close> rows drawn with the generator's next \<open>n\<close> numbers, and the printed width is the
  mean of the 500 upper limits less the mean of the 500 lower limits. A sample of \<open>n\<close>
  rows holds \<open>n\<close> rows of the frame, none taken twice; its first row is the one that
  the first number selects, and every selection of distinct rows is drawn by some
  numbers. With fewer than 800 rows \<^verbatim>\<open>dx.sample\<close> raises and the simulation stops.
\<close>

theorem simulation_reports_mean_widths:
  "sample_sizes = [100, 200, 400, 800]
   \<and> dx_bmi da = map (\<lambda>r. (RIAGENDRx r, BMXBMI r))
                      (filter (\<lambda>r. RIAGENDRx r = Some Female \<and> BMXBMI r \<noteq> None) da)
   \<and> (800 \<le> length (dx_bmi da) \<longrightarrow>
        (\<exists>ps css. simulation z da rng =
              (\<lparr>printed = ps, all_cis = css\<rparr>, Some (sdrop 750000 rng))
          \<and> map fst ps = sample_sizes \<and> length css = 4
          \<and> (\<forall>j<4. length (css ! j) = 500
                \<and> (\<forall>k<500. zconfint_mean z (BMXBMI_column
                       (draw_rows
                          (stake (sample_sizes ! j)
                             (sdrop (500 * sum_list (take j sample_sizes) + k * (sample_sizes ! j)) rng))
                          (dx_bmi da)))
                     = Some (css ! j ! k))
                \<and> snd (ps ! j) = sum_list (map snd (css ! j)) / 500
                                  - sum_list (map fst (css ! j)) / 500)))
   \<and> (n \<le> length d \<longrightarrow>
        length (draw_rows (stake n rng) d) = n \<and> mset (draw_rows (stake n rng) d) \<subseteq># mset d)
   \<and> (d \<noteq> [] \<longrightarrow> hd (draw_rows (i # js) d) = d ! (i mod length d))
   \<and> (distinct qs \<and> set qs \<subseteq> {..<length d} \<longrightarrow>
        (\<exists>ks. length ks = length qs \<and> draw_rows ks d = map ((!) d) qs))
   \<and> (length (dx_bmi da') < 800 \<longrightarrow> snd (simulation z da' rng) = None)"
proof -
  have c1: "sample_sizes = [100, 200, 400, 800]" by (rule sample_sizes_def)
  have c2: "dx_bmi da = map (\<lambda>r. (RIAGENDRx r, BMXBMI r))
                      (filter (\<lambda>r. RIAGENDRx r = Some Female \<and> BMXBMI r \<noteq> None) da)"
    by (rule dx_bmi_eq)
  have c3: "\<exists>ps css. simulation z da rng =
              (\<lparr>printed = ps, all_cis = css\<rparr>, Some (sdrop 750000 rng))
          \<and> map fst ps = sample_sizes \<and> length css = 4
          \<and> (\<forall>j<4. length (css ! j) = 500
                \<and> (\<forall>k<500. zconfint_mean z (BMXBMI_column
                       (draw_rows
                          (stake (sample_sizes ! j)
                             (sdrop (500 * sum_list (take j sample_sizes) + k * (sample_sizes ! j)) rng))
                          (dx_bmi da)))
                     = Some (css ! j ! k))
                \<and> snd (ps ! j) = sum_list (map snd (css ! j)) / 500
                                  - sum_list (map fst (css ! j)) / 500)"
    if h: "800 \<le> length (dx_bmi da)"
  proof -
    from simulation_spec [OF h, of z rng] obtain ps css where
      run: "simulation z da rng = (\<lparr>printed = ps, all_cis = css\<rparr>, Some (sdrop 750000 rng))"
      and len: "length ps = 4" "length css = 4"
      and each: "\<forall>j<4. fst (ps ! j) = sample_sizes ! j \<and> length (css ! j) = 500
            \<and> (\<forall>k<500. nth_ci z (sample_sizes ! j) (dx_bmi da)
                           (sdrop (500 * sum_list (take j sample_sizes)) rng) k
                           = Some (css ! j ! k))
            \<and> snd (ps ! j) = sum_list (map snd (css ! j)) / 500
                              - sum_list (map fst (css ! j)) / 500"
      by blast
    have fsts: "map fst ps = sample_sizes"
    proof (rule nth_equalityI)
      show "length (map fst ps) = length sample_sizes" using len by (simp add: sample_sizes_def)
    next
      fix j assume "j < length (map fst ps)"
      with len have j: "j < 4" and jp: "j < length ps" by simp_all
      from each [rule_format, OF j] have "fst (ps ! j) = sample_sizes ! j" by (rule conjunct1)
      with jp show "map fst ps ! j = sample_sizes ! j" by (simp only: nth_map)
    qed
    have each': "\<forall>j<4. length (css ! j) = 500
                \<and> (\<forall>k<500. zconfint_mean z (BMXBMI_column
                       (draw_rows
                          (stake (sample_sizes ! j)
                             (sdrop (500 * sum_list (take j sample_sizes) + k * (sample_sizes ! j)) rng))
                          (dx_bmi da)))
                     = Some (css ! j ! k))
                \<and> snd (ps ! j) = sum_list (map snd (css ! j)) / 500
                                  - sum_list (map fst (css ! j)) / 500"
    proof (intro allI impI)
      fix j :: nat assume j: "j < 4"
      note e = each [rule_format, OF j]
      from e have a: "length (css ! j) = 500" by (rule conjunct1 [OF conjunct2])
      from e have b: "\<forall>k<500. nth_ci z (sample_sizes ! j) (dx_bmi da)
                           (sdrop (500 * sum_list (take j sample_sizes)) rng) k
                           = Some (css ! j ! k)"
        by (rule conjunct1 [OF conjunct2 [OF conjunct2]])
      from e have c: "snd (ps ! j) = sum_list (map snd (css ! j)) / 500
                              - sum_list (map fst (css ! j)) / 500"
        by (rule conjunct2 [OF conjunct2 [OF conjunct2]])
      from b have b': "\<forall>k<500. zconfint_mean z (BMXBMI_column
                       (draw_rows
                          (stake (sample_sizes ! j)
                             (sdrop (500 * sum_list (take j sample_sizes) + k * (sample_sizes ! j)) rng))
                          (dx_bmi da)))
                     = Some (css ! j ! k)"
        by (simp add: nth_ci_def nth_sample_def)
      from a b' c show "length (css ! j) = 500
                \<and> (\<forall>k<500. zconfint_mean z (BMXBMI_column
                       (draw_rows
                          (stake (sample_sizes ! j)
                             (sdrop (500 * sum_list (take j sample_sizes) + k * (sample_sizes ! j)) rng))
                          (dx_bmi da)))
                     = Some (css ! j ! k))
                \<and> snd (ps ! j) = sum_list (map snd (css ! j)) / 500
                                  - sum_list (map fst (css ! j)) / 500"
        by (intro conjI)
    qed
    show ?thesis
      using run fsts len(2) each' by (intro exI conjI)
  qed
  have c4: "length (draw_rows (stake n rng) d) = n \<and> mset (draw_rows (stake n rng) d) \<subseteq># mset d"
    if "n \<le> length d"
    using that by (simp add: length_draw_rows mset_draw_rows)
  have c5: "hd (draw_rows (i # js) d) = d ! (i mod length d)" if "d \<noteq> []"
    using that by (rule draw_rows_first)
  have c6: "\<exists>ks. length ks = length qs \<and> draw_rows ks d = map ((!) d) qs"
    if "distinct qs \<and> set qs \<subseteq> {..<length d}"
    using that by (auto intro: draw_rows_complete)
  have c7: "snd (simulation z da' rng) = None" if "length (dx_bmi da') < 800"
    using that by (rule simulation_too_few)
  show ?thesis
    by (rule conjI, rule c1, rule conjI, rule c2, rule conjI, rule impI, erule c3,
        rule conjI, rule impI, erule c4, rule conjI, rule impI, erule c5,
        rule conjI, rule impI, erule c6, rule impI, erule c7)
qed

lemma map_filter_replicate:
  "List.map_filter f (replicate n x) = (case f x of None \<Rightarrow> [] | Some y \<Rightarrow> replicate n y)"
  by (induction n) (auto simp: List.map_filter_simps split: option.splits)

lemma dx_bmi_append: "dx_bmi (xs @ ys) = dx_bmi xs @ dx_bmi ys"
  by (simp add: dx_bmi_eq)

lemma dx_bmi_replicate:
  "RIAGENDRx r = Some Female \<Longrightarrow> BMXBMI r = Some v \<Longrightarrow>
   dx_bmi (replicate n r) = replicate n (Some Female, Some v)"
  by (simp add: dx_bmi_eq filter_replicate)

lemma dx_bmi_sim:
  "dx_bmi da_sim = replicate 800 (Some Female, Some 20) @ [(Some Female, Some 30)]"
proof -
  have a: "RIAGENDRx subject_25 = Some Female" "BMXBMI subject_25 = Some 20"
    by (simp_all add: subject_25_def RIAGENDRx_def replace_RIAGENDR_def)
  have b: "dx_bmi [subject_heavy, subject_man] = [(Some Female, Some 30)]"
    by (simp add: dx_bmi_eq subject_heavy_def subject_man_def RIAGENDRx_def replace_RIAGENDR_def)
  show ?thesis
    unfolding da_sim_def dx_bmi_append dx_bmi_replicate [OF a] b ..
qed

lemma length_dx_bmi_sim: "800 \<le> length (dx_bmi da_sim)"
  by (simp add: dx_bmi_sim)

lemma length_dx_bmi_small: "length (dx_bmi da_small) < 800"
  by (simp add: dx_bmi_eq da_small_def RIAGENDRx_def replace_RIAGENDR_def)

theorem simulation_reports_mean_widths_witness:
  "sample_sizes = [100, 200, 400, 800]
   \<and> dx_bmi da_sim = map (\<lambda>r. (RIAGENDRx r, BMXBMI r))
                      (filter (\<lambda>r. RIAGENDRx r = Some Female \<and> BMXBMI r \<noteq> None) da_sim)
   \<and> (800 \<le> length (dx_bmi da_sim) \<and>
        (\<exists>ps css. simulation z_975 da_sim (sconst 0) =
              (\<lparr>printed = ps, all_cis = css\<rparr>, Some (sdrop 750000 (sconst 0)))
          \<and> map fst ps = sample_sizes \<and> length css = 4
          \<and> (\<forall>j<4. length (css ! j) = 500
                \<and> (\<forall>k<500. zconfint_mean z_975 (BMXBMI_column
                       (draw_rows
                          (stake (sample_sizes ! j)
                             (sdrop (500 * sum_list (take j sample_sizes) + k * (sample_sizes ! j))
                                (sconst 0)))
                          (dx_bmi da_sim)))
                     = Some (css ! j ! k))
                \<and> snd (ps ! j) = sum_list (map snd (css ! j)) / 500
                                  - sum_list (map fst (css ! j)) / 500)))
   \<and> ((1::nat) \<le> length [10, 20, 30 :: nat] \<and>
        length (draw_rows (stake 1 (sconst 0)) [10, 20, 30 :: nat]) = 1
        \<and> mset (draw_rows (stake 1 (sconst 0)) [10, 20, 30 :: nat]) \<subseteq># mset [10, 20, 30])
   \<and> ([10, 20, 30 :: nat] \<noteq> [] \<and>
        hd (draw_rows (4 # [0]) [10, 20, 30 :: nat]) = [10, 20, 30] ! (4 mod length [10, 20, 30 :: nat]))
   \<and> ((distinct [2, 0 :: nat] \<and> set [2, 0 :: nat] \<subseteq> {..<length [10, 20, 30 :: nat]}) \<and>
        (\<exists>ks. length ks = length [2, 0 :: nat]
              \<and> draw_rows ks [10, 20, 30 :: nat] = map ((!) [10, 20, 30]) [2, 0]))
   \<and> (length (dx_bmi da_small) < 800 \<and> snd (simulation z_975 da_small (sconst 0)) = None)"
proof -
  note t = simulation_reports_mean_widths [where da = da_sim and z = z_975 and rng = "sconst 0"
      and n = 1 and d = "[10, 20, 30 :: nat]" and i = 4 and js = "[0]" and qs = "[2, 0]"
      and da' = da_small]
  have h4: "(1::nat) \<le> length [10, 20, 30 :: nat]" by simp
  have h5: "[10, 20, 30 :: nat] \<noteq> []" by simp
  have h6: "distinct [2, 0 :: nat] \<and> set [2, 0 :: nat] \<subseteq> {..<length [10, 20, 30 :: nat]}" by simp
  note t1 = conjunct1 [OF t]
  note u2 = conjunct2 [OF t]
  note t2 = conjunct1 [OF u2]
  note u3 = conjunct2 [OF u2]
  note t3 = mp [OF conjunct1 [OF u3] length_dx_bmi_sim]
  note u4 = conjunct2 [OF u3]
  note t4 = mp [OF conjunct1 [OF u4] h4]
  note u5 = conjunct2 [OF u4]
  note t5 = mp [OF conjunct1 [OF u5] h5]
  note u6 = conjunct2 [OF u5]
  note t6 = mp [OF conjunct1 [OF u6] h6]
  note t7 = mp [OF conjunct2 [OF u6] length_dx_bmi_small]
  show ?thesis
    by (rule conjI [OF t1 conjI [OF t2 conjI [OF conjI [OF length_dx_bmi_sim t3]
          conjI [OF conjI [OF h4 t4] conjI [OF conjI [OF h5 t5] conjI [OF conjI [OF h6 t6]
          conjI [OF length_dx_bmi_small t7]]]]]]])
qed

subsection \<open>Two executions over the same table\<close>

lemma stake_add_eq:
  "stake (m + n) s = stake (m + n) t \<longleftrightarrow>
     stake m s = stake m t \<and> stake n (sdrop m s) = stake n (sdrop m t)"
proof -
  have a: "stake (m + n) s = stake m s @ stake n (sdrop m s)"
    and b: "stake (m + n) t = stake m t @ stake n (sdrop m t)"
    by (simp_all only: stake_add)
  show ?thesis unfolding a b by (simp del: stake_add)
qed

lemma inner_loop_cong:
  "stake (i * n) r1 = stake (i * n) r2 \<Longrightarrow>
     (inner_loop z i n d cs r1 = None \<and> inner_loop z i n d cs r2 = None)
     \<or> (\<exists>cs'. inner_loop z i n d cs r1 = Some (cs', sdrop (i * n) r1)
              \<and> inner_loop z i n d cs r2 = Some (cs', sdrop (i * n) r2))"
proof (induction i arbitrary: cs r1 r2)
  case 0
  then show ?case by simp
next
  case (Suc i)
  from Suc.prems have "stake (n + i * n) r1 = stake (n + i * n) r2" by simp
  then have hd: "stake n r1 = stake n r2"
    and tl: "stake (i * n) (sdrop n r1) = stake (i * n) (sdrop n r2)"
    by (simp_all only: stake_add_eq)
  show ?case
  proof (cases "length d < n")
    case True
    then show ?thesis by (simp add: sample_def)
  next
    case False
    let ?s = "draw_rows (stake n r1) d"
    from False hd have s: "sample n d r1 = Some (?s, sdrop n r1)" "sample n d r2 = Some (?s, sdrop n r2)"
      by (simp_all add: sample_def)
    show ?thesis
    proof (cases "zconfint_mean z (BMXBMI_column ?s)")
      case None
      with s show ?thesis by simp
    next
      case (Some ci)
      from Suc.IH [OF tl, of "cs @ [ci]"] s Some show ?thesis
        by (simp add: add.commute)
    qed
  qed
qed

lemma outer_loop_cong:
  "stake (reps * sum_list ns) r1 = stake (reps * sum_list ns) r2 \<Longrightarrow>
     fst (outer_loop z reps ns d st r1) = fst (outer_loop z reps ns d st r2)
     \<and> ((snd (outer_loop z reps ns d st r1) = None \<and> snd (outer_loop z reps ns d st r2) = None)
        \<or> (snd (outer_loop z reps ns d st r1) = Some (sdrop (reps * sum_list ns) r1)
           \<and> snd (outer_loop z reps ns d st r2) = Some (sdrop (reps * sum_list ns) r2)))"
proof (induction ns arbitrary: st r1 r2)
  case Nil
  then show ?case by simp
next
  case (Cons n ns)
  from Cons.prems
  have "stake (reps * n + reps * sum_list ns) r1 = stake (reps * n + reps * sum_list ns) r2"
    by (simp add: distrib_left)
  then have hd: "stake (reps * n) r1 = stake (reps * n) r2"
    and tl: "stake (reps * sum_list ns) (sdrop (reps * n) r1)
             = stake (reps * sum_list ns) (sdrop (reps * n) r2)"
    by (simp_all only: stake_add_eq)
  from inner_loop_cong [OF hd, of z d "[]"]
  show ?case
  proof (elim disjE conjE exE)
    assume "inner_loop z reps n d [] r1 = None" "inner_loop z reps n d [] r2 = None"
    then show ?thesis by simp
  next
    fix cs'
    assume i: "inner_loop z reps n d [] r1 = Some (cs', sdrop (reps * n) r1)"
      "inner_loop z reps n d [] r2 = Some (cs', sdrop (reps * n) r2)"
    show ?thesis
    proof (cases "np_mean (map snd cs')")
      case None
      with i show ?thesis by simp
    next
      case u: (Some u)
      show ?thesis
      proof (cases "np_mean (map fst cs')")
        case None
        with i u show ?thesis by simp
      next
        case l: (Some l)
        let ?st = "\<lparr>printed = printed st @ [(n, u - l)], all_cis = all_cis st @ [cs']\<rparr>"
        from Cons.IH [OF tl, of ?st] i u l show ?thesis
          by (simp add: distrib_left)
      qed
    qed
  qed
qed

lemma simulation_cong:
  assumes "stake 750000 r1 = stake 750000 r2"
  shows "fst (simulation z da r1) = fst (simulation z da r2)
     \<and> ((snd (simulation z da r1) = None \<and> snd (simulation z da r2) = None)
        \<or> (snd (simulation z da r1) = Some (sdrop 750000 r1)
           \<and> snd (simulation z da r2) = Some (sdrop 750000 r2)))"
proof -
  from assms have "stake (500 * sum_list sample_sizes) r1 = stake (500 * sum_list sample_sizes) r2"
    by (simp only: sum_sample_sizes)
  from outer_loop_cong [OF this, of z "dx_bmi da" "\<lparr>printed = [], all_cis = []\<rparr>"]
  show ?thesis by (simp only: simulation_def sum_sample_sizes)
qed

lemma simulation_completes:
  assumes "800 \<le> length (dx_bmi da)"
  shows "\<exists>ps c cs. simulation z da rng =
           (\<lparr>printed = ps, all_cis = c # cs\<rparr>, Some (sdrop 750000 rng))"
proof -
  from simulation_spec [OF assms, of z rng] obtain ps css where
    run: "simulation z da rng = (\<lparr>printed = ps, all_cis = css\<rparr>, Some (sdrop 750000 rng))"
    and len: "length css = 4" by blast
  from len obtain c cs where "css = c # cs" by (cases css) simp_all
  with run show ?thesis by blast
qed

subsection \<open>The cells before the simulation\<close>

lemma without_simulation_simps:
  "raised (without_simulation k) = raised k"
  "without_simulation (start r1) = without_simulation (start r2)"
  by (simp_all add: without_simulation_def start_def)

lemma without_generator_simps:
  "raised (without_generator k) = raised k"
  "without_generator (start r1) = without_generator (start r2)"
  "out_50 (without_generator k) = out_50 k"
  by (simp_all add: without_generator_def start_def)

lemmas cell_defs =
  cell_7_def cell_9_def cell_11_def cell_13_def cell_15_def cell_18_def cell_19_def cell_22_def
  cell_24_def cell_27_def cell_30_def cell_32_def cell_34_def cell_37_def cell_39_def cell_41_def
  cell_43_def cell_46_def

lemma cells_before_50_pure:
  assumes "c \<in> set (cells_before_50 z da)"
  shows "c (without_simulation k) = without_simulation (c k)"
    and "c (without_generator k) = without_generator (c k)"
    and "np_random (c k) = np_random k"
    and "out_50 (c k) = out_50 k"
  using assms
  by (auto simp: cells_before_50_def cell_defs without_simulation_def without_generator_def
      split: option.splits)

lemma foldl_run_cell_commute:
  assumes "\<And>c k. c \<in> set cs \<Longrightarrow> c (f k) = f (c k)" and "\<And>k. raised (f k) = raised k"
  shows "foldl run_cell (f k) cs = f (foldl run_cell k cs)"
  using assms(1)
proof (induction cs arbitrary: k)
  case Nil
  then show ?case by simp
next
  case (Cons c cs)
  have "run_cell (f k) c = f (run_cell k c)"
    using Cons.prems [of c k] assms(2) [of k] by (simp add: run_cell_def)
  with Cons show ?case by simp
qed

lemma foldl_run_cell_keeps:
  assumes "\<And>c k. c \<in> set cs \<Longrightarrow> g (c k) = g k"
  shows "g (foldl run_cell k cs) = g k"
  using assms
proof (induction cs arbitrary: k)
  case Nil
  then show ?case by simp
next
  case (Cons c cs)
  have "g (run_cell k c) = g k"
    using Cons.prems [of c k] by (simp add: run_cell_def)
  with Cons show ?case by simp
qed

lemma notebook_eq:
  "notebook z da rng =
     run_cell (run_cell (run_cell (foldl run_cell (start rng) (cells_before_50 z da))
       (cell_50 z da)) (cell_52 da)) cell_54"
  by (simp add: notebook_def cells_def)

lemma last_cells_without_simulation:
  "without_simulation (run_cell (run_cell (run_cell k (cell_50 z da)) (cell_52 da)) cell_54) =
     (if raised k then without_simulation k
      else if length (dx_bmi da) < 800 then (without_simulation k)\<lparr>raised := True\<rparr>
      else (without_simulation k)\<lparr>v_mn := mn da\<rparr>)"
proof (cases "raised k")
  case True
  then show ?thesis by (simp add: run_cell_def)
next
  case False
  show ?thesis
  proof (cases "length (dx_bmi da) < 800")
    case True
    then have "snd (simulation z da (np_random k)) = None" by (rule simulation_too_few)
    then obtain st where "simulation z da (np_random k) = (st, None)"
      by (cases "simulation z da (np_random k)") simp
    with False True show ?thesis
      by (simp add: run_cell_def cell_50_def without_simulation_def)
  next
    case long: False
    then have "800 \<le> length (dx_bmi da)" by simp
    from simulation_completes [OF this, of z "np_random k"] obtain ps c cs where
      "simulation z da (np_random k) =
         (\<lparr>printed = ps, all_cis = c # cs\<rparr>, Some (sdrop 750000 (np_random k)))" by blast
    with False long show ?thesis
      by (simp add: run_cell_def cell_50_def cell_52_def cell_54_def without_simulation_def)
  qed
qed

lemma last_cells_without_generator:
  assumes "without_generator k1 = without_generator k2"
    and "stake 750000 (np_random k1) = stake 750000 (np_random k2)"
  shows "without_generator
           (run_cell (run_cell (run_cell k1 (cell_50 z da)) (cell_52 da)) cell_54) =
         without_generator
           (run_cell (run_cell (run_cell k2 (cell_50 z da)) (cell_52 da)) cell_54)"
proof -
  have "k2 = (without_generator k2)\<lparr>np_random := np_random k2\<rparr>"
    by (simp add: without_generator_def)
  also have "\<dots> = (without_generator k1)\<lparr>np_random := np_random k2\<rparr>"
    by (simp only: assms(1))
  also have "\<dots> = k1\<lparr>np_random := np_random k2\<rparr>"
    by (simp add: without_generator_def)
  finally have k2: "k2 = k1\<lparr>np_random := np_random k2\<rparr>" .
  from assms(1) have "raised (without_generator k1) = raised (without_generator k2)"
    by (rule arg_cong)
  then have r: "raised k1 = raised k2" by (simp add: without_generator_def)
  obtain s1 o1 where s1: "simulation z da (np_random k1) = (s1, o1)"
    by (cases "simulation z da (np_random k1)")
  obtain s2 o2 where s2: "simulation z da (np_random k2) = (s2, o2)"
    by (cases "simulation z da (np_random k2)")
  from simulation_cong [OF assms(2), of z da] s1 s2
  have e: "s1 = s2" and o: "(o1 = None \<and> o2 = None) \<or> (o1 \<noteq> None \<and> o2 \<noteq> None)"
    by auto
  show ?thesis
  proof (cases "raised k1")
    case True
    with assms(1) r show ?thesis by (simp add: run_cell_def)
  next
    case False
    from o show ?thesis
    proof
      assume "o1 = None \<and> o2 = None"
      with False s1 s2 e show ?thesis
        by (subst k2) (simp add: run_cell_def cell_50_def without_generator_def)
    next
      assume "o1 \<noteq> None \<and> o2 \<noteq> None"
      then obtain g1 g2 where "o1 = Some g1" "o2 = Some g2" by auto
      with False s1 s2 e show ?thesis
        by (subst k2)
          (simp add: run_cell_def cell_50_def cell_52_def cell_54_def without_generator_def
            split: list.splits option.splits)
    qed
  qed
qed

text \<open>
  C4, amended: every cell before the simulation gives the same results in any two
  executions over the same table, whatever the generator does, and so does all that
  the later cells compute without the intervals of the simulation (whether the run
  raises, and the mean \<^verbatim>\<open>mn\<close>); the simulation and the cells that read its intervals
  give the same results in two executions in which the generator yields the same
  numbers for its draws (750000 of them: 500 samples of each of the sizes 100, 200,
  400, 800).
\<close>

theorem same_draws_same_results:
  "without_simulation (notebook z da r1) = without_simulation (notebook z da r2)
   \<and> (stake 750000 r1 = stake 750000 r2 \<longrightarrow>
        without_generator (notebook z da r1) = without_generator (notebook z da r2))"
proof
  let ?k1 = "foldl run_cell (start r1) (cells_before_50 z da)"
  let ?k2 = "foldl run_cell (start r2) (cells_before_50 z da)"
  have "without_simulation ?k1 = foldl run_cell (without_simulation (start r1)) (cells_before_50 z da)"
    by (rule foldl_run_cell_commute [symmetric])
      (simp_all add: cells_before_50_pure without_simulation_simps)
  also have "\<dots> = foldl run_cell (without_simulation (start r2)) (cells_before_50 z da)"
    by (simp only: without_simulation_simps(2) [of r1 r2])
  also have "\<dots> = without_simulation ?k2"
    by (rule foldl_run_cell_commute)
      (simp_all add: cells_before_50_pure without_simulation_simps)
  finally have e: "without_simulation ?k1 = without_simulation ?k2" .
  then have "raised (without_simulation ?k1) = raised (without_simulation ?k2)"
    by (rule arg_cong)
  then have r: "raised ?k1 = raised ?k2" by (simp add: without_simulation_def)
  show "without_simulation (notebook z da r1) = without_simulation (notebook z da r2)"
    by (simp only: notebook_eq last_cells_without_simulation e r)
next
  show "stake 750000 r1 = stake 750000 r2 \<longrightarrow>
        without_generator (notebook z da r1) = without_generator (notebook z da r2)"
  proof
    assume a: "stake 750000 r1 = stake 750000 r2"
    let ?k1 = "foldl run_cell (start r1) (cells_before_50 z da)"
    let ?k2 = "foldl run_cell (start r2) (cells_before_50 z da)"
    have "without_generator ?k1 = foldl run_cell (without_generator (start r1)) (cells_before_50 z da)"
      by (rule foldl_run_cell_commute [symmetric])
        (simp_all add: cells_before_50_pure without_generator_simps)
    also have "\<dots> = foldl run_cell (without_generator (start r2)) (cells_before_50 z da)"
      by (simp only: without_generator_simps(2) [of r1 r2])
    also have "\<dots> = without_generator ?k2"
      by (rule foldl_run_cell_commute)
        (simp_all add: cells_before_50_pure without_generator_simps)
    finally have e: "without_generator ?k1 = without_generator ?k2" .
    have "np_random ?k1 = np_random (start r1)" "np_random ?k2 = np_random (start r2)"
      by (rule foldl_run_cell_keeps, simp add: cells_before_50_pure)+
    then have "np_random ?k1 = r1" "np_random ?k2 = r2" by (simp_all add: start_def)
    with a have "stake 750000 (np_random ?k1) = stake 750000 (np_random ?k2)" by simp
    with e show "without_generator (notebook z da r1) = without_generator (notebook z da r2)"
      unfolding notebook_eq by (rule last_cells_without_generator)
  qed
qed

lemma stake_sconst: "stake n (sconst x) = replicate n x"
  by (induction n) (simp_all del: stake_siterate)

lemma draw_rows_zeros: "draw_rows (replicate n 0) xs = take n xs"
proof (induction n arbitrary: xs)
  case 0
  then show ?case by simp
next
  case (Suc n)
  then show ?case by (cases xs) simp_all
qed

lemma first_sample_sconst:
  "n \<le> m \<Longrightarrow> draw_rows (stake n (sconst 0)) (replicate m a @ [b]) = replicate n a"
  by (simp add: stake_sconst draw_rows_zeros min_def del: stake_siterate)

lemma first_sample_pick_last:
  assumes "n \<le> m"
  shows "draw_rows (stake (Suc n) (m ## sconst 0)) (replicate m a @ [b]) = b # replicate n a"
proof -
  let ?xs = "replicate m a @ [b]"
  have i: "m mod length ?xs = m" by simp
  have x: "?xs ! m = b" by (simp add: nth_append)
  have r: "take m ?xs @ drop (Suc m) ?xs = replicate m a" by simp
  have "draw_rows (m # replicate n 0) ?xs = ?xs ! m # draw_rows (replicate n 0) (replicate m a)"
    unfolding draw_rows.simps i Let_def r by simp
  with assms show ?thesis
    by (simp add: stake_sconst draw_rows_zeros x min_def del: stake_siterate draw_rows.simps)
qed

lemma zconfint_mean_replicate:
  assumes "2 \<le> n"
  shows "zconfint_mean z (replicate n v) = Some (v, v)"
proof -
  from assms have n: "real n \<noteq> 0" by simp
  from assms have "2 \<le> length (replicate n v)" by simp
  from zconfint_mean_eq [OF this, of z] n show ?thesis
    by (simp add: sum_list_replicate)
qed

lemma zconfint_mean_upper:
  assumes "0 \<le> z" and "2 \<le> length xs"
  shows "\<exists>l u. zconfint_mean z xs = Some (l, u) \<and> sum_list xs / real (length xs) \<le> u"
proof -
  let ?n = "real (length xs)"
  let ?m = "sum_list xs / ?n"
  let ?e = "sqrt (sum_list (map (\<lambda>x. (x - ?m)\<^sup>2) xs) / ?n) / sqrt (?n - 1)"
  have "0 \<le> sum_list (map (\<lambda>x. (x - ?m)\<^sup>2) xs) / ?n"
    using sum_list_squares_nonneg [of ?m xs] by simp
  moreover from assms(2) have "0 \<le> ?n - 1" by simp
  ultimately have "0 \<le> ?e" by simp
  with assms(1) have "0 \<le> z * ?e" by (rule mult_nonneg_nonneg)
  then have "?m \<le> ?m + z * ?e" by linarith
  with zconfint_mean_eq [OF assms(2), of z] show ?thesis by blast
qed

lemma simulation_first_ci:
  assumes "800 \<le> length (dx_bmi da)"
  shows "\<exists>ps css. simulation z da rng =
             (\<lparr>printed = ps, all_cis = css\<rparr>, Some (sdrop 750000 rng))
           \<and> zconfint_mean z (BMXBMI_column (draw_rows (stake 100 rng) (dx_bmi da)))
               = Some (css ! 0 ! 0)"
proof -
  from simulation_spec [OF assms, of z rng] obtain ps css where
    run: "simulation z da rng = (\<lparr>printed = ps, all_cis = css\<rparr>, Some (sdrop 750000 rng))"
    and each: "\<forall>j<4. fst (ps ! j) = sample_sizes ! j \<and> length (css ! j) = 500
            \<and> (\<forall>k<500. nth_ci z (sample_sizes ! j) (dx_bmi da)
                           (sdrop (500 * sum_list (take j sample_sizes)) rng) k
                           = Some (css ! j ! k))
            \<and> snd (ps ! j) = sum_list (map snd (css ! j)) / 500
                              - sum_list (map fst (css ! j)) / 500"
    by blast
  have "(0::nat) < 4" by simp
  from each [rule_format, OF this]
  have "\<forall>k<500. nth_ci z (sample_sizes ! 0) (dx_bmi da)
                           (sdrop (500 * sum_list (take 0 sample_sizes)) rng) k
                           = Some (css ! 0 ! k)"
    by (rule conjunct1 [OF conjunct2 [OF conjunct2]])
  then have "nth_ci z (sample_sizes ! 0) (dx_bmi da)
               (sdrop (500 * sum_list (take 0 sample_sizes)) rng) 0 = Some (css ! 0 ! 0)"
    by simp
  then have "zconfint_mean z (BMXBMI_column (draw_rows (stake 100 rng) (dx_bmi da)))
               = Some (css ! 0 ! 0)"
    by (simp add: nth_ci_def nth_sample_def sample_sizes_def)
  with run show ?thesis by blast
qed

lemma first_ci_sconst:
  "zconfint_mean z_975 (BMXBMI_column (draw_rows (stake 100 (sconst 0)) (dx_bmi da_sim)))
     = Some (20, 20)"
proof -
  have "draw_rows (stake 100 (sconst 0)) (dx_bmi da_sim) = replicate 100 (Some Female, Some 20)"
    unfolding dx_bmi_sim by (rule first_sample_sconst) simp
  then have "BMXBMI_column (draw_rows (stake 100 (sconst 0)) (dx_bmi da_sim)) = replicate 100 20"
    by (simp add: BMXBMI_column_def map_filter_replicate)
  then show ?thesis
    by (simp add: zconfint_mean_replicate)
qed

lemma first_ci_pick_last:
  "\<exists>l u. zconfint_mean z_975
            (BMXBMI_column (draw_rows (stake 100 (800 ## sconst 0)) (dx_bmi da_sim)))
          = Some (l, u) \<and> 20 < u"
proof -
  have h: "(100::nat) = Suc 99" by simp
  have "draw_rows (stake (Suc 99) (800 ## sconst 0)) (dx_bmi da_sim)
          = (Some Female, Some 30) # replicate 99 (Some Female, Some 20)"
    unfolding dx_bmi_sim by (rule first_sample_pick_last) simp
  then have c: "BMXBMI_column (draw_rows (stake 100 (800 ## sconst 0)) (dx_bmi da_sim))
          = 30 # replicate 99 20"
    unfolding h by (simp add: BMXBMI_column_def map_filter_replicate List.map_filter_simps)
  have "2 \<le> length (30 # replicate 99 (20::real))" by simp
  from zconfint_mean_upper [OF z_975_nonneg this]
  obtain l u where lu: "zconfint_mean z_975 (30 # replicate 99 20) = Some (l, u)"
    and "sum_list (30 # replicate 99 (20::real)) / real (length (30 # replicate 99 (20::real))) \<le> u"
    by blast
  then have "20 < u" by (simp add: sum_list_replicate)
  with lu c show ?thesis by simp
qed

lemma group_not_empty:
  assumes "r \<in> set da" and "SMQ020x r = Some s" and "RIAGENDRx r = Some g"
  shows "group_by_gender (dx da) g \<noteq> []"
proof -
  from assms have "(Some s, Some g) \<in> set (filter (\<lambda>p. snd p = Some g) (dx da))"
    by (force simp: dx_def dropna_def)
  then show ?thesis
    unfolding group_by_gender_def by (cases "filter (\<lambda>p. snd p = Some g) (dx da)") simp_all
qed

lemma dz_defined:
  assumes "r \<in> set da" and "SMQ020x r = Some s" and "RIAGENDRx r = Some g"
  shows "dz da g \<noteq> None"
proof -
  let ?x = "group_by_gender (dx da) g"
  from assms have ne: "?x \<noteq> []" by (rule group_not_empty)
  then have "mean_is_Yes ?x \<noteq> None"
    by (simp add: mean_is_Yes_def np_mean_Some)
  with ne show ?thesis by (auto simp: dz_def Let_def)
qed

lemma cells_11_to_24_defined:
  assumes "dz da Female = Some f" and "dz da Male = Some m"
  shows "se_female da \<noteq> None" "se_male da \<noteq> None" "ci_female da \<noteq> None"
    "ci_male da \<noteq> None" "se_diff da \<noteq> None" "ci_diff_proportion da \<noteq> None"
proof -
  from dz_bounds [OF assms(1)]
  have f: "se_proportion (Proportion f) (Total_n f)
             = Some (sqrt (Proportion f * (1 - Proportion f) / real (Total_n f)))"
    by (simp add: se_proportion_eq)
  from dz_bounds [OF assms(2)]
  have m: "se_proportion (Proportion m) (Total_n m)
             = Some (sqrt (Proportion m * (1 - Proportion m) / real (Total_n m)))"
    by (simp add: se_proportion_eq)
  show sf: "se_female da \<noteq> None" by (simp add: se_female_def assms f)
  show sm: "se_male da \<noteq> None" by (simp add: se_male_def assms m)
  show "ci_female da \<noteq> None" by (simp add: ci_female_def assms lcb_ucb_proportion_eq f)
  show "ci_male da \<noteq> None" by (simp add: ci_male_def assms lcb_ucb_proportion_eq m)
  show sd: "se_diff da \<noteq> None"
    by (simp add: se_diff_def se_female_def se_male_def assms f m sqrt_sum_squares_eq)
  show "ci_diff_proportion da \<noteq> None"
    by (simp add: ci_diff_proportion_def d_proportion_def se_diff_def se_female_def se_male_def
        assms f m sqrt_sum_squares_eq)
qed

lemma reaches_cell_50:
  assumes "dz da Female \<noteq> None" and "dz da Male \<noteq> None" and "columns_Female_Male da"
  shows "\<not> raised (foldl run_cell (start rng) (cells_before_50 z da))"
proof -
  from assms(1,2) obtain f m where d: "dz da Female = Some f" "dz da Male = Some m" by auto
  from cells_11_to_24_defined [OF d] obtain a b c d e g where
    "se_female da = Some a" "se_male da = Some b" "ci_female da = Some c"
    "ci_male da = Some d" "se_diff da = Some e" "ci_diff_proportion da = Some g" by auto
  moreover from assms(3) have "has_column da Female" "has_column da Male"
    by (simp_all add: has_column_def columns_Female_Male_def)
  ultimately show ?thesis
    using assms(3) by (simp add: cells_before_50_def run_cell_def cell_defs start_def)
qed

lemma out_50_notebook:
  assumes "dz da Female \<noteq> None" and "dz da Male \<noteq> None" and "columns_Female_Male da"
    and "800 \<le> length (dx_bmi da)"
  shows "out_50 (notebook z da rng) = fst (simulation z da rng)"
    and "\<not> raised (notebook z da rng)"
proof -
  let ?k = "foldl run_cell (start rng) (cells_before_50 z da)"
  from assms(1-3) have r: "\<not> raised ?k" by (rule reaches_cell_50)
  have "np_random ?k = np_random (start rng)"
    by (rule foldl_run_cell_keeps) (simp add: cells_before_50_pure)
  then have g: "np_random ?k = rng" by (simp add: start_def)
  from simulation_completes [OF assms(4), of z rng] obtain ps c cs where
    s: "simulation z da rng = (\<lparr>printed = ps, all_cis = c # cs\<rparr>, Some (sdrop 750000 rng))"
    by blast
  from r g s show "out_50 (notebook z da rng) = fst (simulation z da rng)"
    unfolding notebook_eq by (simp add: run_cell_def cell_50_def cell_52_def cell_54_def)
  from r g s show "\<not> raised (notebook z da rng)"
    unfolding notebook_eq by (simp add: run_cell_def cell_50_def cell_52_def cell_54_def)
qed

lemma da_sim_rows:
  "subject_heavy \<in> set da_sim" "SMQ020x subject_heavy = Some No"
  "RIAGENDRx subject_heavy = Some Female"
  "subject_man \<in> set da_sim" "SMQ020x subject_man = Some Yes"
  "RIAGENDRx subject_man = Some Male"
  by (simp_all add: da_sim_def subject_heavy_def subject_man_def SMQ020x_def RIAGENDRx_def
      replace_SMQ020_def replace_RIAGENDR_def)

lemma columns_da_sim: "columns_Female_Male da_sim"
  by (auto simp: columns_Female_Male_def gender_labels_def da_sim_def map_filter_def
      subject_heavy_def subject_man_def subject_25_def RIAGENDRx_def replace_RIAGENDR_def)

lemma out_50_da_sim:
  "out_50 (notebook z da_sim rng) = fst (simulation z da_sim rng)"
  "\<not> raised (notebook z da_sim rng)"
  by (rule out_50_notebook [OF dz_defined [OF da_sim_rows(1-3)] dz_defined [OF da_sim_rows(4-6)]
        columns_da_sim length_dx_bmi_sim])+

text \<open>
  C4, as stated, fails: over the table \<open>da_sim\<close> no cell raises, and an execution in
  which the generator yields zeros only and one in which it first yields 800 have
  different first intervals, \<open>(20, 20)\<close> and one whose upper limit is above 20.
\<close>

theorem unseeded_runs_differ:
  "\<not> raised (notebook z_975 da_sim (sconst 0))
   \<and> \<not> raised (notebook z_975 da_sim (800 ## sconst 0))
   \<and> all_cis (out_50 (notebook z_975 da_sim (sconst 0))) ! 0 ! 0 = (20, 20)
   \<and> 20 < snd (all_cis (out_50 (notebook z_975 da_sim (800 ## sconst 0))) ! 0 ! 0)
   \<and> without_generator (notebook z_975 da_sim (sconst 0))
       \<noteq> without_generator (notebook z_975 da_sim (800 ## sconst 0))"
proof -
  obtain ps1 css1 where
    a: "simulation z_975 da_sim (sconst 0)
          = (\<lparr>printed = ps1, all_cis = css1\<rparr>, Some (sdrop 750000 (sconst 0)))"
    and a0: "zconfint_mean z_975 (BMXBMI_column (draw_rows (stake 100 (sconst 0)) (dx_bmi da_sim)))
               = Some (css1 ! 0 ! 0)"
    using simulation_first_ci [OF length_dx_bmi_sim, of z_975 "sconst 0"] by blast
  obtain ps2 css2 where
    b: "simulation z_975 da_sim (800 ## sconst 0)
          = (\<lparr>printed = ps2, all_cis = css2\<rparr>, Some (sdrop 750000 (800 ## sconst 0)))"
    and b0: "zconfint_mean z_975
               (BMXBMI_column (draw_rows (stake 100 (800 ## sconst 0)) (dx_bmi da_sim)))
               = Some (css2 ! 0 ! 0)"
    using simulation_first_ci [OF length_dx_bmi_sim, of z_975 "800 ## sconst 0"] by blast
  have o1: "all_cis (out_50 (notebook z_975 da_sim (sconst 0))) = css1"
    by (simp add: out_50_da_sim(1) a)
  have o2: "all_cis (out_50 (notebook z_975 da_sim (800 ## sconst 0))) = css2"
    by (simp add: out_50_da_sim(1) b)
  from a0 have c1: "css1 ! 0 ! 0 = (20, 20)"
    unfolding first_ci_sconst by simp
  from b0 first_ci_pick_last have c2: "20 < snd (css2 ! 0 ! 0)"
    by auto
  have d: "without_generator (notebook z_975 da_sim (sconst 0))
       \<noteq> without_generator (notebook z_975 da_sim (800 ## sconst 0))"
  proof
    assume "without_generator (notebook z_975 da_sim (sconst 0))
       = without_generator (notebook z_975 da_sim (800 ## sconst 0))"
    then have "out_50 (without_generator (notebook z_975 da_sim (sconst 0)))
       = out_50 (without_generator (notebook z_975 da_sim (800 ## sconst 0)))"
      by (rule arg_cong)
    then have "css1 = css2"
      unfolding without_generator_simps(3) using o1 o2 by simp
    with c1 c2 show False by simp
  qed
  show ?thesis
    unfolding o1 o2
    by (rule conjI [OF out_50_da_sim(2) conjI [OF out_50_da_sim(2) conjI [OF c1 conjI [OF c2 d]]]])
qed

theorem same_draws_same_results_witness:
  "without_simulation (notebook z_975 da_sim (sconst 0))
     = without_simulation (notebook z_975 da_sim (replicate 750000 0 @- sconst 1))
   \<and> (stake 750000 (sconst (0::nat)) = stake 750000 (replicate 750000 0 @- sconst 1)
      \<and> without_generator (notebook z_975 da_sim (sconst 0))
          = without_generator (notebook z_975 da_sim (replicate 750000 0 @- sconst 1)))"
proof -
  have h: "stake 750000 (sconst (0::nat)) = stake 750000 (replicate 750000 0 @- sconst 1)"
    by (simp add: stake_shift stake_sconst del: stake_siterate)
  note t = same_draws_same_results [of z_975 da_sim "sconst 0" "replicate 750000 0 @- sconst 1"]
  show ?thesis
    by (rule conjI [OF conjunct1 [OF t] conjI [OF h mp [OF conjunct2 [OF t] h]]])
qed

subsection \<open>Every interval of the notebook\<close>

lemma zconfint_mean_form:
  assumes "zconfint_mean z xs = Some c"
  shows "\<exists>m sd. np_mean xs = Some m \<and> pd_std xs = Some sd
           \<and> c = (m - z * (sd / sqrt (real (length xs))), m + z * (sd / sqrt (real (length xs))))"
proof -
  let ?n = "real (length xs)"
  let ?m = "sum_list xs / ?n"
  let ?ss = "sum_list (map (\<lambda>x. (x - ?m)\<^sup>2) xs)"
  from assms have "length xs \<noteq> 0" and "sqrt (?n - 1) \<noteq> 0"
    by (auto simp: zconfint_mean_def np_mean_def np_divide_def np_sqrt_def
        split: bind_splits if_splits)
  then have len: "2 \<le> length xs" by (cases xs; cases "tl xs") auto
  then have n: "?n \<noteq> 0" "0 < ?n" "0 < ?n - 1" "?n - 1 \<noteq> 0" by auto
  have ss: "0 \<le> ?ss" by (rule sum_list_squares_nonneg)
  have m: "np_mean xs = Some ?m"
    unfolding np_mean_def by (rule np_divide_Some) (rule n)
  from ss n(3) have "0 \<le> ?ss / (?n - 1)" by simp
  then have sd: "pd_std xs = Some (sqrt (?ss / (?n - 1)))"
    by (simp add: pd_std_def m np_divide_Some [OF n(4)] np_sqrt_Some)
  have e: "sqrt (?ss / ?n) / sqrt (?n - 1) = sqrt (?ss / (?n - 1)) / sqrt ?n"
    by (simp add: real_sqrt_divide)
  from assms zconfint_mean_eq [OF len, of z]
  have "c = (?m - z * (sqrt (?ss / ?n) / sqrt (?n - 1)), ?m + z * (sqrt (?ss / ?n) / sqrt (?n - 1)))"
    by simp
  then have "c = (?m - z * (sqrt (?ss / (?n - 1)) / sqrt ?n),
                  ?m + z * (sqrt (?ss / (?n - 1)) / sqrt ?n))"
    unfolding e .
  with m sd show ?thesis by blast
qed

lemma inner_loop_intervals:
  assumes "inner_loop z i n d cs rng = Some (cs', rng')"
    and "\<forall>c\<in>set cs. \<exists>ks. zconfint_mean z (BMXBMI_column (draw_rows ks d)) = Some c"
  shows "\<forall>c\<in>set cs'. \<exists>ks. zconfint_mean z (BMXBMI_column (draw_rows ks d)) = Some c"
  using assms
proof (induction i arbitrary: cs rng)
  case 0
  then show ?case by simp
next
  case (Suc i)
  from Suc.prems(1) obtain ci where
    ci: "zconfint_mean z (BMXBMI_column (draw_rows (stake n rng) d)) = Some ci"
    and run: "inner_loop z i n d (cs @ [ci]) (sdrop n rng) = Some (cs', rng')"
    by (auto simp: sample_def split: bind_splits if_splits)
  from ci Suc.prems(2)
  have "\<forall>c\<in>set (cs @ [ci]). \<exists>ks. zconfint_mean z (BMXBMI_column (draw_rows ks d)) = Some c"
    by auto
  with run show ?case by (rule Suc.IH)
qed

lemma outer_loop_intervals:
  assumes "\<forall>cs\<in>set (all_cis st). \<forall>c\<in>set cs.
             \<exists>ks. zconfint_mean z (BMXBMI_column (draw_rows ks d)) = Some c"
  shows "\<forall>cs\<in>set (all_cis (fst (outer_loop z reps ns d st rng))). \<forall>c\<in>set cs.
             \<exists>ks. zconfint_mean z (BMXBMI_column (draw_rows ks d)) = Some c"
  using assms
proof (induction ns arbitrary: st rng)
  case Nil
  then show ?case by simp
next
  case (Cons n ns)
  show ?case
  proof (cases "inner_loop z reps n d [] rng")
    case None
    with Cons.prems show ?thesis by simp
  next
    case (Some a)
    obtain cs rng' where a: "a = (cs, rng')" by (cases a)
    have "\<forall>c\<in>set ([] :: (real \<times> real) list).
            \<exists>ks. zconfint_mean z (BMXBMI_column (draw_rows ks d)) = Some c" by simp
    with Some [unfolded a]
    have cs: "\<forall>c\<in>set cs. \<exists>ks. zconfint_mean z (BMXBMI_column (draw_rows ks d)) = Some c"
      by (rule inner_loop_intervals)
    show ?thesis
    proof (cases "np_mean (map snd cs)")
      case None
      with Some a Cons.prems show ?thesis by simp
    next
      case u: (Some u)
      show ?thesis
      proof (cases "np_mean (map fst cs)")
        case None
        with Some a u Cons.prems show ?thesis by simp
      next
        case l: (Some l)
        let ?st = "\<lparr>printed = printed st @ [(n, u - l)], all_cis = all_cis st @ [cs]\<rparr>"
        from cs Cons.prems
        have "\<forall>cs\<in>set (all_cis ?st). \<forall>c\<in>set cs.
               \<exists>ks. zconfint_mean z (BMXBMI_column (draw_rows ks d)) = Some c"
          by auto
        from Cons.IH [OF this, of rng'] Some a u l show ?thesis by simp
      qed
    qed
  qed
qed

lemma simulation_intervals:
  "\<forall>cs\<in>set (all_cis (fst (simulation z da rng))). \<forall>c\<in>set cs.
     \<exists>ks. zconfint_mean z (BMXBMI_column (draw_rows ks (dx_bmi da))) = Some c"
  unfolding simulation_def by (rule outer_loop_intervals) simp

lemma proportion_confint_form:
  assumes "se_proportion (real cnt / real nobs) nobs = Some s"
  shows "proportion_confint z cnt nobs
           = Some (real cnt / real nobs - z * s, real cnt / real nobs + z * s)"
  using assms
  by (auto simp: proportion_confint_def se_proportion_def np_divide_def
      split: bind_splits if_splits)

lemma se_cell_18:
  "se_proportion (real 906 / real (906 + 2066)) (906 + 2066)
     = Some (sqrt (906 / 2972 * (1 - 906 / 2972) / 2972))"
  by (simp add: se_proportion_def np_divide_def np_sqrt_def)

lemma se_cell_19:
  "se_proportion (real 1413 / real (1413 + 1340)) (1413 + 1340)
     = Some (sqrt (1413 / 2753 * (1 - 1413 / 2753) / 2753))"
  by (simp add: se_proportion_def np_divide_def np_sqrt_def)

lemma ci_cell_18_eq:
  "ci_cell_18 z = Some (906 / 2972 - z * sqrt (906 / 2972 * (1 - 906 / 2972) / 2972),
                        906 / 2972 + z * sqrt (906 / 2972 * (1 - 906 / 2972) / 2972))"
  unfolding ci_cell_18_def proportion_confint_form [OF se_cell_18] by simp

lemma ci_cell_19_eq:
  "ci_cell_19 z = Some (1413 / 2753 - z * sqrt (1413 / 2753 * (1 - 1413 / 2753) / 2753),
                        1413 / 2753 + z * sqrt (1413 / 2753 * (1 - 1413 / 2753) / 2753))"
  unfolding ci_cell_19_def proportion_confint_form [OF se_cell_19] by simp

lemma cells_18_19_inside_unit_interval:
  "\<exists>l u. ci_cell_18 z_975 = Some (l, u) \<and> 0 \<le> l \<and> u \<le> 1"
  "\<exists>l u. ci_cell_19 z_975 = Some (l, u) \<and> 0 \<le> l \<and> u \<le> 1"
proof -
  have a: "sqrt (906 / 2972 * (1 - 906 / 2972) / 2972) \<le> (1/10 :: real)"
    by (rule real_le_lsqrt) (simp_all add: power2_eq_square)
  have b: "sqrt (1413 / 2753 * (1 - 1413 / 2753) / 2753) \<le> (1/10 :: real)"
    by (rule real_le_lsqrt) (simp_all add: power2_eq_square)
  have z: "0 \<le> z_975" "z_975 \<le> 2" by (simp_all add: z_975_def)
  from mult_mono [OF z(2) a] z(1)
  have a': "z_975 * sqrt (906 / 2972 * (1 - 906 / 2972) / 2972) \<le> 1/5" by simp
  from mult_mono [OF z(2) b] z(1)
  have b': "z_975 * sqrt (1413 / 2753 * (1 - 1413 / 2753) / 2753) \<le> 1/5" by simp
  from a' show "\<exists>l u. ci_cell_18 z_975 = Some (l, u) \<and> 0 \<le> l \<and> u \<le> 1"
    unfolding ci_cell_18_eq by simp
  from b' show "\<exists>l u. ci_cell_19 z_975 = Some (l, u) \<and> 0 \<le> l \<and> u \<le> 1"
    unfolding ci_cell_19_eq by simp
qed

lemma first_interval_da_sim:
  "all_cis (fst (simulation z_975 da_sim (sconst 0))) ! 0
     \<in> set (all_cis (fst (simulation z_975 da_sim (sconst 0))))"
  "all_cis (fst (simulation z_975 da_sim (sconst 0))) ! 0 ! 0
     \<in> set (all_cis (fst (simulation z_975 da_sim (sconst 0))) ! 0)"
  "all_cis (fst (simulation z_975 da_sim (sconst 0))) ! 0 ! 0 = (20, 20)"
proof -
  from simulation_spec [OF length_dx_bmi_sim, of z_975 "sconst 0"] obtain ps css where
    run: "simulation z_975 da_sim (sconst 0)
            = (\<lparr>printed = ps, all_cis = css\<rparr>, Some (sdrop 750000 (sconst 0)))"
    and len: "length css = 4"
    and each: "\<forall>j<4. fst (ps ! j) = sample_sizes ! j \<and> length (css ! j) = 500
            \<and> (\<forall>k<500. nth_ci z_975 (sample_sizes ! j) (dx_bmi da_sim)
                           (sdrop (500 * sum_list (take j sample_sizes)) (sconst 0)) k
                           = Some (css ! j ! k))
            \<and> snd (ps ! j) = sum_list (map snd (css ! j)) / 500
                              - sum_list (map fst (css ! j)) / 500"
    by blast
  have o: "all_cis (fst (simulation z_975 da_sim (sconst 0))) = css" by (simp add: run)
  have "(0::nat) < 4" by simp
  from each [rule_format, OF this]
  have l0: "length (css ! 0) = 500"
    and n0: "\<forall>k<500. nth_ci z_975 (sample_sizes ! 0) (dx_bmi da_sim)
                           (sdrop (500 * sum_list (take 0 sample_sizes)) (sconst 0)) k
                           = Some (css ! 0 ! k)"
    by simp_all
  from len show "all_cis (fst (simulation z_975 da_sim (sconst 0))) ! 0
     \<in> set (all_cis (fst (simulation z_975 da_sim (sconst 0))))"
    unfolding o by simp
  from l0 show "all_cis (fst (simulation z_975 da_sim (sconst 0))) ! 0 ! 0
     \<in> set (all_cis (fst (simulation z_975 da_sim (sconst 0))) ! 0)"
    unfolding o by simp
  from n0 have "nth_ci z_975 (sample_sizes ! 0) (dx_bmi da_sim)
                  (sdrop (500 * sum_list (take 0 sample_sizes)) (sconst 0)) 0
                = Some (css ! 0 ! 0)" by simp
  then have "zconfint_mean z_975
               (BMXBMI_column (draw_rows (stake 100 (sconst 0)) (dx_bmi da_sim)))
               = Some (css ! 0 ! 0)"
    by (simp add: nth_ci_def nth_sample_def sample_sizes_def)
  then show "all_cis (fst (simulation z_975 da_sim (sconst 0))) ! 0 ! 0 = (20, 20)"
    unfolding o first_ci_sconst by simp
qed

lemma female_bmi_small: "female_bmi da_small = [20, 30]"
  by (simp add: female_bmi_def da_small_def RIAGENDRx_def replace_RIAGENDR_def
      List.map_filter_simps)

lemma sqrt_25: "sqrt (25::real) = 5"
  by (rule real_sqrt_unique) simp_all

lemma ci_female_bmi_small:
  "ci_female_bmi z_975 da_small = Some (25 - z_975 * 5, 25 + z_975 * 5)"
  unfolding ci_female_bmi_def female_bmi_small zconfint_20_30 sqrt_25 ..

lemma mean_std_20_30: "np_mean [20, 30] = Some 25" "pd_std [20, 30] = Some (sqrt 50)"
  by (simp_all add: pd_std_def np_mean_def np_divide_def np_sqrt_def)

lemma sqrt_50_2: "sqrt 50 / sqrt 2 = (5::real)"
proof -
  have "sqrt 50 / sqrt 2 = sqrt (50 / 2 :: real)" by (simp only: real_sqrt_divide)
  then show ?thesis by (simp add: sqrt_25)
qed

text \<open>
  C1, as stated, fails in two ways. On the table \<open>da_small\<close> the estimate of the
  difference of proportions is 0 and its standard error is 1/2, and the interval of
  cell 24 is \<open>(-1, 1)\<close>, two standard errors either side, not 1.96. And the intervals
  that statsmodels computes use the normal quantile 1.959963984540054, not 1.96: the
  interval of cell 18 is not the one with 1.96 and the same proportion and standard
  error, and on \<open>da_small\<close>, where the mean BMI of the women is 25 with standard error
  \<open>sqrt 50 / sqrt 2 = 5\<close>, neither is the interval of cell 39.
\<close>

theorem intervals_not_all_196:
  "d_proportion da_small = Some 0 \<and> se_diff da_small = Some (1/2)
   \<and> ci_diff_proportion da_small = Some (-1, 1)
   \<and> ci_diff_proportion da_small \<noteq> Some (0 - 1.96 * (1/2), 0 + 1.96 * (1/2))
   \<and> se_proportion (906 / 2972) 2972 = Some (sqrt (906 / 2972 * (1 - 906 / 2972) / 2972))
   \<and> ci_cell_18 z_975 \<noteq>
       Some (906 / 2972 - 1.96 * sqrt (906 / 2972 * (1 - 906 / 2972) / 2972),
             906 / 2972 + 1.96 * sqrt (906 / 2972 * (1 - 906 / 2972) / 2972))
   \<and> np_mean (female_bmi da_small) = Some 25
   \<and> pd_std (female_bmi da_small) = Some (sqrt 50)
   \<and> sqrt 50 / sqrt (real (length (female_bmi da_small))) = 5
   \<and> ci_female_bmi z_975 da_small = Some (25 - z_975 * 5, 25 + z_975 * 5)
   \<and> ci_female_bmi z_975 da_small \<noteq> Some (25 - 1.96 * 5, 25 + 1.96 * 5)"
proof -
  have s: "0 < sqrt (906 / 2972 * (1 - 906 / 2972) / 2972 :: real)" by simp
  have "z_975 * sqrt (906 / 2972 * (1 - 906 / 2972) / 2972)
          \<noteq> 1.96 * sqrt (906 / 2972 * (1 - 906 / 2972) / 2972)"
    using s by (simp add: z_975_def)
  then have c18: "ci_cell_18 z_975 \<noteq>
       Some (906 / 2972 - 1.96 * sqrt (906 / 2972 * (1 - 906 / 2972) / 2972),
             906 / 2972 + 1.96 * sqrt (906 / 2972 * (1 - 906 / 2972) / 2972))"
    unfolding ci_cell_18_eq by simp
  have se18: "se_proportion (906 / 2972) 2972
                = Some (sqrt (906 / 2972 * (1 - 906 / 2972) / 2972))"
    by (simp add: se_proportion_def np_divide_def np_sqrt_def)
  have c39: "ci_female_bmi z_975 da_small \<noteq> Some (25 - 1.96 * 5, 25 + 1.96 * 5)"
    unfolding ci_female_bmi_small by (simp add: z_975_def)
  have c24: "ci_diff_proportion da_small \<noteq> Some (0 - 1.96 * (1/2), 0 + 1.96 * (1/2))"
    by (simp add: ci_diff_small)
  have m: "np_mean (female_bmi da_small) = Some 25"
    "pd_std (female_bmi da_small) = Some (sqrt 50)"
    "sqrt 50 / sqrt (real (length (female_bmi da_small))) = 5"
    by (simp_all add: female_bmi_small mean_std_20_30 sqrt_50_2)
  show ?thesis
    by (rule conjI [OF d_small conjI [OF se_diff_small conjI [OF ci_diff_small conjI [OF c24
          conjI [OF se18 conjI [OF c18 conjI [OF m(1) conjI [OF m(2) conjI [OF m(3)
          conjI [OF ci_female_bmi_small c39]]]]]]]]]])
qed

text \<open>
  C1, amended: every interval that the notebook constructs runs from
  \<open>estimate - k * SE\<close> to \<open>estimate + k * SE\<close>, where the estimate is the point estimate
  and SE its standard error. In the intervals written out by hand \<open>k = 1.96\<close> for the
  one-proportion intervals, the interval of the female mean BMI and the difference of
  means within age bands, and \<open>k = 2\<close> for the difference of proportions (overall and
  within age bands) and the overall difference of means. In the intervals that
  statsmodels computes \<open>k\<close> is the normal quantile \<open>z\<close> of the library (\<open>z_975\<close>, which is
  1.959963984540054): \<^verbatim>\<open>proportion_confint\<close> in cells 18 and 19, with the standard
  error \<open>sqrt (p * (1 - p) / n)\<close>, and \<^verbatim>\<open>zconfint_mean\<close> in cell 39 and for every sample
  of the simulation, with the mean of the values and their standard deviation over
  the square root of their number.
\<close>

theorem notebook_intervals:
  "(se_proportion p n = Some s \<longrightarrow>
      lcb_ucb_proportion p n = Some (p - 1.96 * s, p + 1.96 * s))
   \<and> (dz da Female = Some f \<and> se_female da = Some s1 \<longrightarrow>
      ci_female da = Some (Proportion f - 1.96 * s1, Proportion f + 1.96 * s1))
   \<and> (dz da Male = Some m \<and> se_male da = Some s2 \<longrightarrow>
      ci_male da = Some (Proportion m - 1.96 * s2, Proportion m + 1.96 * s2))
   \<and> (d_proportion da = Some d \<and> se_diff da = Some s3 \<longrightarrow>
      ci_diff_proportion da = Some (d - 2 * s3, d + 2 * s3))
   \<and> (pq da i = Some q \<and> se_diff_age da i = Some s4 \<longrightarrow>
      ci_diff_proportion_age da i = Some (q - 2 * s4, q + 2 * s4))
   \<and> (sem_female = Some s5 \<longrightarrow>
      lcb_female = Some (29.94 - 1.96 * s5) \<and> ucb_female = Some (29.94 + 1.96 * s5))
   \<and> (sem_diff = Some s6 \<longrightarrow>
      ci_bmi_diff = Some (bmi_diff - 2 * s6, bmi_diff + 2 * s6))
   \<and> (mean_diff da i = Some e \<and> sem_diff_age da i = Some s7 \<longrightarrow>
      lcb_ucb_diff da i = Some (e - 1.96 * s7, e + 1.96 * s7))
   \<and> (se_proportion (real cnt / real nobs) nobs = Some s8 \<longrightarrow>
      proportion_confint z cnt nobs
        = Some (real cnt / real nobs - z * s8, real cnt / real nobs + z * s8))
   \<and> ci_cell_18 z = Some (906 / 2972 - z * sqrt (906 / 2972 * (1 - 906 / 2972) / 2972),
                           906 / 2972 + z * sqrt (906 / 2972 * (1 - 906 / 2972) / 2972))
   \<and> ci_cell_19 z = Some (1413 / 2753 - z * sqrt (1413 / 2753 * (1 - 1413 / 2753) / 2753),
                           1413 / 2753 + z * sqrt (1413 / 2753 * (1 - 1413 / 2753) / 2753))
   \<and> (zconfint_mean z xs = Some c \<longrightarrow>
        (\<exists>mu sd. np_mean xs = Some mu \<and> pd_std xs = Some sd
           \<and> c = (mu - z * (sd / sqrt (real (length xs))),
                  mu + z * (sd / sqrt (real (length xs))))))
   \<and> (ci_female_bmi z da = Some c' \<longrightarrow>
        (\<exists>mu sd. np_mean (female_bmi da) = Some mu \<and> pd_std (female_bmi da) = Some sd
           \<and> c' = (mu - z * (sd / sqrt (real (length (female_bmi da)))),
                   mu + z * (sd / sqrt (real (length (female_bmi da)))))))
   \<and> (\<forall>cs\<in>set (all_cis (fst (simulation z da' rng))). \<forall>c\<in>set cs.
        \<exists>ks mu sd. np_mean (BMXBMI_column (draw_rows ks (dx_bmi da'))) = Some mu
           \<and> pd_std (BMXBMI_column (draw_rows ks (dx_bmi da'))) = Some sd
           \<and> c = (mu - z * (sd / sqrt (real (length (BMXBMI_column (draw_rows ks (dx_bmi da')))))),
                  mu + z * (sd / sqrt (real (length (BMXBMI_column (draw_rows ks (dx_bmi da'))))))))"
proof -
  have c1: "se_proportion p n = Some s \<longrightarrow>
      lcb_ucb_proportion p n = Some (p - 1.96 * s, p + 1.96 * s)"
    by (simp add: lcb_ucb_proportion_def)
  have c2: "dz da Female = Some f \<and> se_female da = Some s1 \<longrightarrow>
      ci_female da = Some (Proportion f - 1.96 * s1, Proportion f + 1.96 * s1)"
  proof
    assume a: "dz da Female = Some f \<and> se_female da = Some s1"
    then have "se_proportion (Proportion f) (Total_n f) = Some s1"
      by (auto simp: se_female_def)
    with a show "ci_female da = Some (Proportion f - 1.96 * s1, Proportion f + 1.96 * s1)"
      by (simp add: ci_female_def lcb_ucb_proportion_def)
  qed
  have c3: "dz da Male = Some m \<and> se_male da = Some s2 \<longrightarrow>
      ci_male da = Some (Proportion m - 1.96 * s2, Proportion m + 1.96 * s2)"
  proof
    assume a: "dz da Male = Some m \<and> se_male da = Some s2"
    then have "se_proportion (Proportion m) (Total_n m) = Some s2"
      by (auto simp: se_male_def split: bind_splits)
    with a show "ci_male da = Some (Proportion m - 1.96 * s2, Proportion m + 1.96 * s2)"
      by (simp add: ci_male_def lcb_ucb_proportion_def)
  qed
  have c4: "d_proportion da = Some d \<and> se_diff da = Some s3 \<longrightarrow>
      ci_diff_proportion da = Some (d - 2 * s3, d + 2 * s3)"
    by (simp add: ci_diff_proportion_def lcb_ucb_2_def)
  have c5: "pq da i = Some q \<and> se_diff_age da i = Some s4 \<longrightarrow>
      ci_diff_proportion_age da i = Some (q - 2 * s4, q + 2 * s4)"
    by (simp add: ci_diff_proportion_age_def lcb_ucb_2_def)
  have c6: "sem_female = Some s5 \<longrightarrow>
      lcb_female = Some (29.94 - 1.96 * s5) \<and> ucb_female = Some (29.94 + 1.96 * s5)"
  proof
    assume a: "sem_female = Some s5"
    have "s5 = 7.753 / sqrt 2976"
      using a unfolding sem_const by simp
    then show "lcb_female = Some (29.94 - 1.96 * s5) \<and> ucb_female = Some (29.94 + 1.96 * s5)"
      by (simp add: lcb_female_def ucb_female_def np_sqrt_def np_divide_def)
  qed
  have c7: "sem_diff = Some s6 \<longrightarrow>
      ci_bmi_diff = Some (bmi_diff - 2 * s6, bmi_diff + 2 * s6)"
  proof
    assume a: "sem_diff = Some s6"
    show "ci_bmi_diff = Some (bmi_diff - 2 * s6, bmi_diff + 2 * s6)"
      unfolding ci_bmi_diff_def a by (simp add: lcb_ucb_2_def)
  qed
  have c8: "mean_diff da i = Some e \<and> sem_diff_age da i = Some s7 \<longrightarrow>
      lcb_ucb_diff da i = Some (e - 1.96 * s7, e + 1.96 * s7)"
    by (simp add: lcb_ucb_diff_def)
  have c9: "se_proportion (real cnt / real nobs) nobs = Some s8 \<longrightarrow>
      proportion_confint z cnt nobs
        = Some (real cnt / real nobs - z * s8, real cnt / real nobs + z * s8)"
    by (rule impI) (rule proportion_confint_form)
  have c12: "zconfint_mean z xs = Some c \<longrightarrow>
        (\<exists>mu sd. np_mean xs = Some mu \<and> pd_std xs = Some sd
           \<and> c = (mu - z * (sd / sqrt (real (length xs))),
                  mu + z * (sd / sqrt (real (length xs)))))"
    by (rule impI) (rule zconfint_mean_form)
  have c13: "ci_female_bmi z da = Some c' \<longrightarrow>
        (\<exists>mu sd. np_mean (female_bmi da) = Some mu \<and> pd_std (female_bmi da) = Some sd
           \<and> c' = (mu - z * (sd / sqrt (real (length (female_bmi da)))),
                   mu + z * (sd / sqrt (real (length (female_bmi da))))))"
    unfolding ci_female_bmi_def by (rule impI) (rule zconfint_mean_form)
  have c14: "\<forall>cs\<in>set (all_cis (fst (simulation z da' rng))). \<forall>c\<in>set cs.
        \<exists>ks mu sd. np_mean (BMXBMI_column (draw_rows ks (dx_bmi da'))) = Some mu
           \<and> pd_std (BMXBMI_column (draw_rows ks (dx_bmi da'))) = Some sd
           \<and> c = (mu - z * (sd / sqrt (real (length (BMXBMI_column (draw_rows ks (dx_bmi da')))))),
                  mu + z * (sd / sqrt (real (length (BMXBMI_column (draw_rows ks (dx_bmi da')))))))"
  proof (intro ballI)
    fix cs c
    assume "cs \<in> set (all_cis (fst (simulation z da' rng)))" and "c \<in> set cs"
    with simulation_intervals [of z "da'" rng] obtain ks where
      "zconfint_mean z (BMXBMI_column (draw_rows ks (dx_bmi da'))) = Some c" by blast
    from zconfint_mean_form [OF this]
    show "\<exists>ks mu sd. np_mean (BMXBMI_column (draw_rows ks (dx_bmi da'))) = Some mu
           \<and> pd_std (BMXBMI_column (draw_rows ks (dx_bmi da'))) = Some sd
           \<and> c = (mu - z * (sd / sqrt (real (length (BMXBMI_column (draw_rows ks (dx_bmi da')))))),
                  mu + z * (sd / sqrt (real (length (BMXBMI_column (draw_rows ks (dx_bmi da')))))))"
      by (rule exI [of _ ks])
  qed
  show ?thesis
    by (rule conjI [OF c1 conjI [OF c2 conjI [OF c3 conjI [OF c4 conjI [OF c5 conjI [OF c6
          conjI [OF c7 conjI [OF c8 conjI [OF c9 conjI [OF ci_cell_18_eq conjI [OF ci_cell_19_eq
          conjI [OF c12 conjI [OF c13 c14]]]]]]]]]]]]])
qed

theorem notebook_intervals_witness:
  "(se_proportion (1/2) 4 = Some (1/4) \<and>
      lcb_ucb_proportion (1/2) 4 = Some (1/2 - 1.96 * (1/4), 1/2 + 1.96 * (1/4)))
   \<and> ((dz da_small Female = Some \<lparr>Proportion = 1/2, Total_n = 2\<rparr> \<and>
        se_female da_small = Some (sqrt (1/8))) \<and>
      ci_female da_small = Some (1/2 - 1.96 * sqrt (1/8), 1/2 + 1.96 * sqrt (1/8)))
   \<and> ((dz da_small Male = Some \<lparr>Proportion = 1/2, Total_n = 2\<rparr> \<and>
        se_male da_small = Some (sqrt (1/8))) \<and>
      ci_male da_small = Some (1/2 - 1.96 * sqrt (1/8), 1/2 + 1.96 * sqrt (1/8)))
   \<and> ((d_proportion da_small = Some 0 \<and> se_diff da_small = Some (1/2)) \<and>
      ci_diff_proportion da_small = Some (0 - 2 * (1/2), 0 + 2 * (1/2)))
   \<and> ((pq da_small 0 = Some 0 \<and> se_diff_age da_small 0 = Some (1/2)) \<and>
      ci_diff_proportion_age da_small 0 = Some (0 - 2 * (1/2), 0 + 2 * (1/2)))
   \<and> (sem_female = Some (7.753 / sqrt 2976) \<and>
      lcb_female = Some (29.94 - 1.96 * (7.753 / sqrt 2976)) \<and>
      ucb_female = Some (29.94 + 1.96 * (7.753 / sqrt 2976)))
   \<and> (sem_diff = Some (sqrt ((7.753 / sqrt 2976)\<^sup>2 + (6.253 / sqrt 2759)\<^sup>2)) \<and>
      ci_bmi_diff = Some (bmi_diff - 2 * sqrt ((7.753 / sqrt 2976)\<^sup>2 + (6.253 / sqrt 2759)\<^sup>2),
                          bmi_diff + 2 * sqrt ((7.753 / sqrt 2976)\<^sup>2 + (6.253 / sqrt 2759)\<^sup>2)))
   \<and> ((mean_diff da_small 0 = Some 1 \<and> sem_diff_age da_small 0 = Some (sqrt 29)) \<and>
      lcb_ucb_diff da_small 0 = Some (1 - 1.96 * sqrt 29, 1 + 1.96 * sqrt 29))
   \<and> (se_proportion (real 2 / real 4) 4 = Some (1/4) \<and>
      proportion_confint z_975 2 4
        = Some (real 2 / real 4 - z_975 * (1/4), real 2 / real 4 + z_975 * (1/4)))
   \<and> (zconfint_mean z_975 [20, 30] = Some (25 - z_975 * sqrt 25, 25 + z_975 * sqrt 25) \<and>
        (\<exists>mu sd. np_mean [20, 30] = Some mu \<and> pd_std [20, 30] = Some sd
           \<and> (25 - z_975 * sqrt 25, 25 + z_975 * sqrt 25)
               = (mu - z_975 * (sd / sqrt (real (length [20, 30 :: real]))),
                  mu + z_975 * (sd / sqrt (real (length [20, 30 :: real]))))))
   \<and> (ci_female_bmi z_975 da_small = Some (25 - z_975 * 5, 25 + z_975 * 5) \<and>
        (\<exists>mu sd. np_mean (female_bmi da_small) = Some mu \<and> pd_std (female_bmi da_small) = Some sd
           \<and> (25 - z_975 * 5, 25 + z_975 * 5)
               = (mu - z_975 * (sd / sqrt (real (length (female_bmi da_small)))),
                  mu + z_975 * (sd / sqrt (real (length (female_bmi da_small)))))))
   \<and> (all_cis (fst (simulation z_975 da_sim (sconst 0))) ! 0
          \<in> set (all_cis (fst (simulation z_975 da_sim (sconst 0))))
        \<and> all_cis (fst (simulation z_975 da_sim (sconst 0))) ! 0 ! 0
          \<in> set (all_cis (fst (simulation z_975 da_sim (sconst 0))) ! 0)
        \<and> (\<exists>ks mu sd. np_mean (BMXBMI_column (draw_rows ks (dx_bmi da_sim))) = Some mu
           \<and> pd_std (BMXBMI_column (draw_rows ks (dx_bmi da_sim))) = Some sd
           \<and> all_cis (fst (simulation z_975 da_sim (sconst 0))) ! 0 ! 0
               = (mu - z_975 * (sd / sqrt (real (length (BMXBMI_column
                                                  (draw_rows ks (dx_bmi da_sim)))))),
                  mu + z_975 * (sd / sqrt (real (length (BMXBMI_column
                                                  (draw_rows ks (dx_bmi da_sim)))))))))"
proof -
  have p: "se_proportion (1/2) 4 = Some (1/4)"
    by (simp add: se_proportion_eq real_sqrt_divide)
  have p': "se_proportion (real 2 / real 4) 4 = Some (1/4)"
    using p by simp
  note t = notebook_intervals [where p = "1/2" and n = 4 and s = "1/4" and da = da_small
        and f = "\<lparr>Proportion = 1/2, Total_n = 2\<rparr>" and ?s1.0 = "sqrt (1/8)"
        and m = "\<lparr>Proportion = 1/2, Total_n = 2\<rparr>" and ?s2.0 = "sqrt (1/8)"
        and d = 0 and ?s3.0 = "1/2" and i = 0 and q = 0 and ?s4.0 = "1/2"
        and ?s5.0 = "7.753 / sqrt 2976"
        and ?s6.0 = "sqrt ((7.753 / sqrt 2976)\<^sup>2 + (6.253 / sqrt 2759)\<^sup>2)"
        and e = 1 and ?s7.0 = "sqrt 29" and cnt = 2 and nobs = 4 and ?s8.0 = "1/4"
        and z = z_975 and xs = "[20, 30]"
        and c = "(25 - z_975 * sqrt 25, 25 + z_975 * sqrt 25)"
        and c' = "(25 - z_975 * 5, 25 + z_975 * 5)" and da' = da_sim and rng = "sconst 0"]
  have h2: "dz da_small Female = Some \<lparr>Proportion = 1/2, Total_n = 2\<rparr> \<and>
        se_female da_small = Some (sqrt (1/8))"
    by (simp add: dz_small se_small)
  have dzm: "dz da_small Male = Some \<lparr>Proportion = 1/2, Total_n = 2\<rparr>"
    by (simp add: dz_def Let_def dx_def dropna_def group_by_gender_def da_small_def SMQ020x_def
        RIAGENDRx_def replace_SMQ020_def replace_RIAGENDR_def mean_is_Yes_def np_mean_def
        np_divide_def np_size_def)
  have h3: "dz da_small Male = Some \<lparr>Proportion = 1/2, Total_n = 2\<rparr> \<and>
        se_male da_small = Some (sqrt (1/8))"
    by (simp add: dzm se_small)
  have h4: "d_proportion da_small = Some 0 \<and> se_diff da_small = Some (1/2)"
    by (simp add: d_small se_diff_small)
  have h5: "pq da_small 0 = Some 0 \<and> se_diff_age da_small 0 = Some (1/2)"
    by (simp add: pq_small se_diff_age_small)
  have h6: "sem_female = Some (7.753 / sqrt 2976)" by (simp add: sem_const)
  have h8: "mean_diff da_small 0 = Some 1 \<and> sem_diff_age da_small 0 = Some (sqrt 29)"
    by (simp add: mean_diff_small sem_diff_age_small)
  note t1 = mp [OF conjunct1 [OF t] p]
  note u2 = conjunct2 [OF t]
  have t2: "ci_female da_small = Some (1/2 - 1.96 * sqrt (1/8), 1/2 + 1.96 * sqrt (1/8))"
    using mp [OF conjunct1 [OF u2] h2] by simp
  note u3 = conjunct2 [OF u2]
  have t3: "ci_male da_small = Some (1/2 - 1.96 * sqrt (1/8), 1/2 + 1.96 * sqrt (1/8))"
    using mp [OF conjunct1 [OF u3] h3] by simp
  note u4 = conjunct2 [OF u3]
  note t4 = mp [OF conjunct1 [OF u4] h4]
  note u5 = conjunct2 [OF u4]
  note t5 = mp [OF conjunct1 [OF u5] h5]
  note u6 = conjunct2 [OF u5]
  note t6 = mp [OF conjunct1 [OF u6] h6]
  note u7 = conjunct2 [OF u6]
  note t7 = mp [OF conjunct1 [OF u7] sem_diff_const]
  note u8 = conjunct2 [OF u7]
  note t8 = mp [OF conjunct1 [OF u8] h8]
  note u9 = conjunct2 [OF u8]
  note t9 = mp [OF conjunct1 [OF u9] p']
  note u12 = conjunct2 [OF conjunct2 [OF conjunct2 [OF u9]]]
  note t12 = mp [OF conjunct1 [OF u12] zconfint_20_30]
  note u13 = conjunct2 [OF u12]
  note t13 = mp [OF conjunct1 [OF u13] ci_female_bmi_small]
  note t14 = bspec [OF bspec [OF conjunct2 [OF u13] first_interval_da_sim(1)]
      first_interval_da_sim(2)]
  show ?thesis
    by (rule conjI [OF conjI [OF p t1] conjI [OF conjI [OF h2 t2] conjI [OF conjI [OF h3 t3]
          conjI [OF conjI [OF h4 t4] conjI [OF conjI [OF h5 t5] conjI [OF conjI [OF h6 t6]
          conjI [OF conjI [OF sem_diff_const t7] conjI [OF conjI [OF h8 t8]
          conjI [OF conjI [OF p' t9] conjI [OF conjI [OF zconfint_20_30 t12]
          conjI [OF conjI [OF ci_female_bmi_small t13]
          conjI [OF first_interval_da_sim(1) conjI [OF first_interval_da_sim(2) t14]]]]]]]]]]]]])
qed

end
